theory Spec2Isabelle
  imports Complex_Main "HOL-Library.Word"
begin

section \<open>Arrays, errors and the numpy operations the composer uses\<close>

text \<open>
  The composer (\<^verbatim>\<open>src/eink_composer/composer.py\<close>) works on two-dimensional
  \<^verbatim>\<open>uint8\<close> numpy arrays. An array is modelled as the list of its rows. numpy
  arrays are rectangular; the list type is wider, and an array with no rows carries no
  width here (\<open>ncols [] = 0\<close>).
\<close>

type_synonym pixel = "8 word"
type_synonym grid = "pixel list list"

text \<open>
  Every exception of the source is a value. \<open>LoadError\<close>, \<open>InvalidDimension\<close> and
  \<open>InvalidInput\<close> are the error kinds the helper modules raise; \<open>ValueError\<close>
  (shapes that cannot be broadcast), \<open>IndexError\<close> and \<open>OverflowError\<close> (a Python
  integer outside 0..255 stored into a \<^verbatim>\<open>uint8\<close> array) are numpy's own.
\<close>

datatype error = LoadError | InvalidDimension | InvalidInput | ValueError | IndexError | OverflowError

definition ncols :: "'a list list \<Rightarrow> nat" where
  "ncols g = (case g of [] \<Rightarrow> 0 | r # _ \<Rightarrow> length r)"

definition shape :: "'a list list \<Rightarrow> int \<times> int" where
  "shape g = (int (length g), int (ncols g))"

definition rectangular :: "'a list list \<Rightarrow> nat \<Rightarrow> nat \<Rightarrow> bool" where
  "rectangular g h w = (length g = h \<and> list_all (\<lambda>r. length r = w) g)"

definition and_then :: "error + 'a \<Rightarrow> ('a \<Rightarrow> error + 'b) \<Rightarrow> error + 'b" where
  "and_then r f = (case r of Inl e \<Rightarrow> Inl e | Inr v \<Rightarrow> f v)"

definition mapi :: "(nat \<Rightarrow> 'a \<Rightarrow> 'b) \<Rightarrow> 'a list \<Rightarrow> 'b list" where
  "mapi f xs = map (\<lambda>(i, v). f i v) (enumerate 0 xs)"

text \<open>
  \<^verbatim>\<open>a[start:stop]\<close> on an axis of length \<open>n\<close>: Python moves a negative bound by
  \<open>n\<close>, clamps both bounds into \<open>0..n\<close> and selects the indices from the first bound
  up to (excluding) the second; the selection is empty when the second is not larger.
\<close>

definition slice_indices :: "int \<Rightarrow> int \<Rightarrow> nat \<Rightarrow> nat \<times> nat" where
  "slice_indices start stop n =
     (let lo = (if start < 0 then max (start + int n) 0 else min start (int n));
          hi = (if stop < 0 then max (stop + int n) 0 else min stop (int n))
      in (nat lo, nat (max lo hi)))"

text \<open>\<^verbatim>\<open>a[i]\<close> with an integer: a negative index counts from the end, out of range raises.\<close>

definition py_index :: "int \<Rightarrow> nat \<Rightarrow> error + nat" where
  "py_index i n =
     (if - int n \<le> i \<and> i < int n then Inr (nat (if i < 0 then i + int n else i))
      else Inl IndexError)"

text \<open>\<^verbatim>\<open>img[:a, :b]\<close>\<close>

definition getitem_block :: "'a list list \<Rightarrow> int \<Rightarrow> int \<Rightarrow> 'a list list" where
  "getitem_block img a b =
     (let (r0, r1) = slice_indices 0 a (length img);
          (c0, c1) = slice_indices 0 b (ncols img)
      in map (\<lambda>row. take (c1 - c0) (drop c0 row)) (take (r1 - r0) (drop r0 img)))"

text \<open>
  \<^verbatim>\<open>canvas[r0:r1, c0:c1] = src\<close> with an array on the right: numpy broadcasts
  \<open>src\<close> to the shape of the selected block (each axis of \<open>src\<close> has the block's
  length or length 1) and raises \<^verbatim>\<open>ValueError\<close> before writing anything when it
  cannot.
\<close>

definition setitem_block :: "grid \<Rightarrow> int \<times> int \<Rightarrow> int \<times> int \<Rightarrow> grid \<Rightarrow> error + grid" where
  "setitem_block cv rs cs src =
     (let (ra, rb) = slice_indices (fst rs) (snd rs) (length cv);
          (ca, cb) = slice_indices (fst cs) (snd cs) (ncols cv);
          sh = length src;
          sw = ncols src
      in if (sh = rb - ra \<or> sh = 1) \<and> (sw = cb - ca \<or> sw = 1)
         then Inr (mapi (\<lambda>i row.
                     if ra \<le> i \<and> i < rb
                     then mapi (\<lambda>j p.
                            if ca \<le> j \<and> j < cb
                            then src ! (if sh = 1 then 0 else i - ra) ! (if sw = 1 then 0 else j - ca)
                            else p) row
                     else row) cv)
         else Inl ValueError)"

text \<open>
  Storing a Python integer into a \<^verbatim>\<open>uint8\<close> array: numpy 2 (what
  \<^verbatim>\<open>numpy>=1.21.0\<close> of \<^verbatim>\<open>setup.py\<close> installs today) raises
  \<^verbatim>\<open>OverflowError\<close> outside 0..255.
\<close>

definition to_uint8 :: "int \<Rightarrow> error + pixel" where
  "to_uint8 c = (if 0 \<le> c \<and> c \<le> 255 then Inr (word_of_int c) else Inl OverflowError)"

text \<open>\<^verbatim>\<open>canvas[r0:r1, c0:c1] = p\<close> with a scalar.\<close>

definition fill_block :: "grid \<Rightarrow> int \<times> int \<Rightarrow> int \<times> int \<Rightarrow> pixel \<Rightarrow> grid" where
  "fill_block cv rs cs p =
     (let (ra, rb) = slice_indices (fst rs) (snd rs) (length cv);
          (ca, cb) = slice_indices (fst cs) (snd cs) (ncols cv)
      in mapi (\<lambda>i row.
           if ra \<le> i \<and> i < rb then mapi (\<lambda>j q. if ca \<le> j \<and> j < cb then p else q) row else row) cv)"

text \<open>\<^verbatim>\<open>canvas[i, c0:c1] = p\<close> and \<^verbatim>\<open>canvas[r0:r1, j] = p\<close>.\<close>

definition fill_row :: "grid \<Rightarrow> int \<Rightarrow> int \<times> int \<Rightarrow> pixel \<Rightarrow> error + grid" where
  "fill_row cv i cs p =
     and_then (py_index i (length cv)) (\<lambda>r.
       let (ca, cb) = slice_indices (fst cs) (snd cs) (ncols cv)
       in Inr (mapi (\<lambda>k row. if k = r then mapi (\<lambda>j q. if ca \<le> j \<and> j < cb then p else q) row else row) cv))"

definition fill_col :: "grid \<Rightarrow> int \<times> int \<Rightarrow> int \<Rightarrow> pixel \<Rightarrow> error + grid" where
  "fill_col cv rs j p =
     and_then (py_index j (ncols cv)) (\<lambda>c.
       let (ra, rb) = slice_indices (fst rs) (snd rs) (length cv)
       in Inr (mapi (\<lambda>i row. if ra \<le> i \<and> i < rb then mapi (\<lambda>k q. if k = c then p else q) row else row) cv))"

text \<open>\<^verbatim>\<open>canvas.fill(p)\<close>: every element becomes \<open>p\<close>; the shape stays.\<close>

definition fill_canvas :: "grid \<Rightarrow> pixel \<Rightarrow> grid" where
  "fill_canvas cv p = map (map (\<lambda>_. p)) cv"

section \<open>The layer model\<close>

text \<open>
  The dataclasses \<^verbatim>\<open>Layer\<close>, \<^verbatim>\<open>ImageLayer\<close>, \<^verbatim>\<open>TextLayer\<close> and
  \<^verbatim>\<open>RectangleLayer\<close>. Fields whose source name is a HOL constant, an Isabelle
  keyword or a usual variable name are renamed: \<^verbatim>\<open>id\<close> is \<open>layer_id\<close>,
  \<^verbatim>\<open>type\<close> is \<open>layer_type\<close>, \<^verbatim>\<open>x\<close> and \<^verbatim>\<open>y\<close> are \<open>pos_x\<close> and
  \<open>pos_y\<close>, \<^verbatim>\<open>rotate\<close> is \<open>rotate_deg\<close>, \<^verbatim>\<open>text\<close> is \<open>text_str\<close>; the
  \<^verbatim>\<open>color\<close>, \<^verbatim>\<open>width\<close> and \<^verbatim>\<open>height\<close> of the layer classes carry the
  class as a prefix. Python floats are rationals here: the composer only compares
  them with \<^verbatim>\<open>1.0\<close> and \<^verbatim>\<open>0\<close> and hands them on.
\<close>

datatype resize_mode = Stretch | Fit | Crop

datatype dither_mode = FloydSteinberg | Threshold | NoDither

record Layer =
  layer_id :: string
  layer_type :: string
  visible :: bool
  pos_x :: int
  pos_y :: int

record ImageLayer = Layer +
  image_path :: "string option"
  image_data :: "grid option"
  resize_mode :: resize_mode
  dither_mode :: dither_mode
  brightness :: rat
  contrast :: rat
  rotate_deg :: int
  flip_h :: bool
  flip_v :: bool
  crop_x :: "int option"
  crop_y :: "int option"

record TextLayer = Layer +
  text_str :: string
  text_color :: int

record RectangleLayer = Layer +
  rect_width :: int
  rect_height :: int
  filled :: bool
  rect_color :: int

datatype layer = Image ImageLayer | Text TextLayer | Rectangle RectangleLayer

text \<open>The dataclass defaults of an \<^verbatim>\<open>ImageLayer(id=i)\<close>.\<close>

definition new_ImageLayer :: "string \<Rightarrow> ImageLayer" where
  "new_ImageLayer i =
     \<lparr>layer_id = i, layer_type = ''image'', visible = True, pos_x = 0, pos_y = 0,
      image_path = None, image_data = None, resize_mode = Fit, dither_mode = FloydSteinberg,
      brightness = 1, contrast = 0, rotate_deg = 0, flip_h = False, flip_v = False,
      crop_x = None, crop_y = None\<rparr>"

definition new_TextLayer :: "string \<Rightarrow> TextLayer" where
  "new_TextLayer i =
     \<lparr>layer_id = i, layer_type = ''text'', visible = True, pos_x = 0, pos_y = 0,
      text_str = [], text_color = 0\<rparr>"

definition new_RectangleLayer :: "string \<Rightarrow> RectangleLayer" where
  "new_RectangleLayer i =
     \<lparr>layer_id = i, layer_type = ''rectangle'', visible = True, pos_x = 0, pos_y = 0,
      rect_width = 10, rect_height = 10, filled = True, rect_color = 0\<rparr>"

fun id_of :: "layer \<Rightarrow> string" where
  "id_of (Image l) = layer_id l"
| "id_of (Text l) = layer_id l"
| "id_of (Rectangle l) = layer_id l"

fun visible_of :: "layer \<Rightarrow> bool" where
  "visible_of (Image l) = visible l"
| "visible_of (Text l) = visible l"
| "visible_of (Rectangle l) = visible l"

fun set_visible :: "layer \<Rightarrow> bool \<Rightarrow> layer" where
  "set_visible (Image l) b = Image (l\<lparr>visible := b\<rparr>)"
| "set_visible (Text l) b = Text (l\<lparr>visible := b\<rparr>)"
| "set_visible (Rectangle l) b = Rectangle (l\<lparr>visible := b\<rparr>)"

section \<open>The composer\<close>

record EinkComposer =
  width :: int
  height :: int
  layers :: "layer list"
  canvas :: grid

text \<open>\<^verbatim>\<open>EinkComposer.__init__\<close>: \<^verbatim>\<open>np.full\<close> raises on a negative dimension.\<close>

definition new_composer :: "int \<Rightarrow> int \<Rightarrow> error + EinkComposer" where
  "new_composer w h =
     (if w < 0 \<or> h < 0 then Inl ValueError
      else Inr \<lparr>width = w, height = h, layers = [],
                canvas = replicate (nat h) (replicate (nat w) 255)\<rparr>)"

subsection \<open>Layer management\<close>

text \<open>\<^verbatim>\<open>remove_layer\<close>: keeps the layers with another id and returns \<^verbatim>\<open>True\<close>.\<close>

definition remove_layer :: "EinkComposer \<Rightarrow> string \<Rightarrow> EinkComposer \<times> bool" where
  "remove_layer self i = (self\<lparr>layers := filter (\<lambda>l. id_of l \<noteq> i) (layers self)\<rparr>, True)"

text \<open>
  The keyword arguments of \<^verbatim>\<open>update_layer\<close>, one constructor per attribute name
  with the value the dataclass declares for it; \<open>A_other\<close> is any other name.
  \<^verbatim>\<open>setattr\<close> is done only where \<^verbatim>\<open>hasattr\<close> holds, that is where the
  layer's class has the field.
\<close>

datatype attr =
    A_id string | A_type string | A_visible bool | A_x int | A_y int
  | A_image_path "string option" | A_image_data "grid option"
  | A_resize_mode resize_mode | A_dither_mode dither_mode
  | A_brightness rat | A_contrast rat | A_rotate int | A_flip_h bool | A_flip_v bool
  | A_crop_x "int option" | A_crop_y "int option"
  | A_text string | A_color int | A_width int | A_height int | A_filled bool
  | A_other string

fun set_base :: "'a Layer_scheme \<Rightarrow> attr \<Rightarrow> 'a Layer_scheme" where
  "set_base l (A_id v) = l\<lparr>layer_id := v\<rparr>"
| "set_base l (A_type v) = l\<lparr>layer_type := v\<rparr>"
| "set_base l (A_visible v) = l\<lparr>visible := v\<rparr>"
| "set_base l (A_x v) = l\<lparr>pos_x := v\<rparr>"
| "set_base l (A_y v) = l\<lparr>pos_y := v\<rparr>"
| "set_base l _ = l"

fun set_image :: "ImageLayer \<Rightarrow> attr \<Rightarrow> ImageLayer" where
  "set_image l (A_image_path v) = l\<lparr>image_path := v\<rparr>"
| "set_image l (A_image_data v) = l\<lparr>image_data := v\<rparr>"
| "set_image l (A_resize_mode v) = l\<lparr>resize_mode := v\<rparr>"
| "set_image l (A_dither_mode v) = l\<lparr>dither_mode := v\<rparr>"
| "set_image l (A_brightness v) = l\<lparr>brightness := v\<rparr>"
| "set_image l (A_contrast v) = l\<lparr>contrast := v\<rparr>"
| "set_image l (A_rotate v) = l\<lparr>rotate_deg := v\<rparr>"
| "set_image l (A_flip_h v) = l\<lparr>flip_h := v\<rparr>"
| "set_image l (A_flip_v v) = l\<lparr>flip_v := v\<rparr>"
| "set_image l (A_crop_x v) = l\<lparr>crop_x := v\<rparr>"
| "set_image l (A_crop_y v) = l\<lparr>crop_y := v\<rparr>"
| "set_image l a = set_base l a"

fun set_text :: "TextLayer \<Rightarrow> attr \<Rightarrow> TextLayer" where
  "set_text l (A_text v) = l\<lparr>text_str := v\<rparr>"
| "set_text l (A_color v) = l\<lparr>text_color := v\<rparr>"
| "set_text l a = set_base l a"

fun set_rectangle :: "RectangleLayer \<Rightarrow> attr \<Rightarrow> RectangleLayer" where
  "set_rectangle l (A_width v) = l\<lparr>rect_width := v\<rparr>"
| "set_rectangle l (A_height v) = l\<lparr>rect_height := v\<rparr>"
| "set_rectangle l (A_filled v) = l\<lparr>filled := v\<rparr>"
| "set_rectangle l (A_color v) = l\<lparr>rect_color := v\<rparr>"
| "set_rectangle l a = set_base l a"

fun setattr_layer :: "layer \<Rightarrow> attr \<Rightarrow> layer" where
  "setattr_layer (Image l) a = Image (set_image l a)"
| "setattr_layer (Text l) a = Text (set_text l a)"
| "setattr_layer (Rectangle l) a = Rectangle (set_rectangle l a)"

text \<open>
  \<^verbatim>\<open>update_layer\<close> and \<^verbatim>\<open>toggle_layer\<close>: the \<^verbatim>\<open>for\<close> loop over
  \<^verbatim>\<open>self.layers\<close> returns \<^verbatim>\<open>True\<close> from inside at the first layer whose id
  matches, and \<^verbatim>\<open>False\<close> after the loop.
\<close>

fun update_layers :: "layer list \<Rightarrow> string \<Rightarrow> attr list \<Rightarrow> layer list \<times> bool" where
  "update_layers [] i kwargs = ([], False)"
| "update_layers (l # ls) i kwargs =
     (if id_of l = i then (foldl setattr_layer l kwargs # ls, True)
      else (case update_layers ls i kwargs of (ls', found) \<Rightarrow> (l # ls', found)))"

definition update_layer :: "EinkComposer \<Rightarrow> string \<Rightarrow> attr list \<Rightarrow> EinkComposer \<times> bool" where
  "update_layer self i kwargs =
     (case update_layers (layers self) i kwargs of (ls, found) \<Rightarrow> (self\<lparr>layers := ls\<rparr>, found))"

fun toggle_layers :: "layer list \<Rightarrow> string \<Rightarrow> layer list \<times> bool" where
  "toggle_layers [] i = ([], False)"
| "toggle_layers (l # ls) i =
     (if id_of l = i then (set_visible l (\<not> visible_of l) # ls, True)
      else (case toggle_layers ls i of (ls', found) \<Rightarrow> (l # ls', found)))"

definition toggle_layer :: "EinkComposer \<Rightarrow> string \<Rightarrow> EinkComposer \<times> bool" where
  "toggle_layer self i =
     (case toggle_layers (layers self) i of (ls, found) \<Rightarrow> (self\<lparr>layers := ls\<rparr>, found))"

subsection \<open>The helper modules\<close>

text \<open>
  \<^verbatim>\<open>composer.py\<close> imports its pixel operations from the modules
  \<^verbatim>\<open>dithering\<close>, \<^verbatim>\<open>image_ops\<close> and \<^verbatim>\<open>text\<close> and reads image files
  through PIL. The composer is modelled over any such helpers: each is a function that
  returns a new array or raises. \<open>image_open p\<close> is
  \<^verbatim>\<open>np.array(Image.open(p).convert('L'))\<close>, a function of the path while the
  files stay as they are. \<^verbatim>\<open>render_text\<close> writes into the canvas it is given;
  here it returns the element writes it makes, in order, and the exception it ends
  with, if any.
\<close>

record helpers =
  image_open :: "string \<Rightarrow> error + grid"
  flip_horizontal :: "grid \<Rightarrow> error + grid"
  flip_vertical :: "grid \<Rightarrow> error + grid"
  rotate_ccw_90 :: "grid \<Rightarrow> error + grid"
  invert_colors :: "grid \<Rightarrow> error + grid"
  resize_image :: "grid \<Rightarrow> int \<Rightarrow> int \<Rightarrow> resize_mode \<Rightarrow> int option \<Rightarrow> int option \<Rightarrow> error + grid"
  adjust_brightness_contrast :: "grid \<Rightarrow> rat \<Rightarrow> rat \<Rightarrow> error + grid"
  floyd_steinberg_dither :: "grid \<Rightarrow> error + grid"
  threshold_dither :: "grid \<Rightarrow> error + grid"
  render_text :: "string \<Rightarrow> int \<Rightarrow> int \<Rightarrow> grid \<Rightarrow> int \<Rightarrow> ((nat \<times> nat) \<times> pixel) list \<times> error option"

text \<open>An element write \<^verbatim>\<open>canvas[i, j] = p\<close> made by a helper.\<close>

definition write_pixel :: "grid \<Rightarrow> (nat \<times> nat) \<times> pixel \<Rightarrow> grid" where
  "write_pixel cv w =
     (case w of ((i, j), p) \<Rightarrow>
        if i < length cv \<and> j < length (cv ! i) then cv[i := (cv ! i)[j := p]] else cv)"

subsection \<open>Rendering an image layer\<close>

text \<open>
  \<^verbatim>\<open>_render_image_layer\<close>, one definition per commented block of the source.
  Loading: \<open>None\<close> is the early \<^verbatim>\<open>return\<close> of a layer with neither data nor a
  (non-empty) path.
\<close>

definition load_image :: "helpers \<Rightarrow> ImageLayer \<Rightarrow> (error + grid) option" where
  "load_image hp l =
     (case image_data l of
        Some d \<Rightarrow> Some (Inr d)
      | None \<Rightarrow>
          (case image_path l of
             None \<Rightarrow> None
           | Some p \<Rightarrow> if p \<noteq> [] then Some (image_open hp p) else None))"

text \<open>\<^verbatim>\<open>for _ in range(rotations): img = rotate_ccw_90(img)\<close>\<close>

fun rotate_loop :: "helpers \<Rightarrow> nat \<Rightarrow> grid \<Rightarrow> error + grid" where
  "rotate_loop hp 0 img = Inr img"
| "rotate_loop hp (Suc n) img = and_then (rotate_ccw_90 hp img) (rotate_loop hp n)"

definition apply_transformations :: "helpers \<Rightarrow> ImageLayer \<Rightarrow> grid \<Rightarrow> error + grid" where
  "apply_transformations hp l img =
     and_then (if flip_h l then flip_horizontal hp img else Inr img) (\<lambda>img.
     and_then (if flip_v l then flip_vertical hp img else Inr img) (\<lambda>img.
       if rotate_deg l \<noteq> 0
       then (let rotations = (rotate_deg l mod 360) div 90 in rotate_loop hp (nat rotations) img)
       else Inr img))"

definition resize_to_target :: "helpers \<Rightarrow> EinkComposer \<Rightarrow> ImageLayer \<Rightarrow> grid \<Rightarrow> error + grid" where
  "resize_to_target hp self l img =
     (let target_width = width self - pos_x l;
          target_height = height self - pos_y l
      in if shape img \<noteq> (target_height, target_width)
         then resize_image hp img target_width target_height (resize_mode l) (crop_x l) (crop_y l)
         else Inr img)"

definition apply_brightness_contrast :: "helpers \<Rightarrow> ImageLayer \<Rightarrow> grid \<Rightarrow> error + grid" where
  "apply_brightness_contrast hp l img =
     (if brightness l \<noteq> 1 \<or> contrast l \<noteq> 0
      then adjust_brightness_contrast hp img (brightness l) (contrast l)
      else Inr img)"

definition apply_dithering :: "helpers \<Rightarrow> ImageLayer \<Rightarrow> grid \<Rightarrow> error + grid" where
  "apply_dithering hp l img =
     (case dither_mode l of
        FloydSteinberg \<Rightarrow> floyd_steinberg_dither hp img
      | Threshold \<Rightarrow> threshold_dither hp img
      | NoDither \<Rightarrow> Inr img)"

text \<open>
  Compositing. A method that returns nothing is modelled by the composer after it and
  the exception it ended with, if any.
\<close>

definition composite :: "EinkComposer \<Rightarrow> ImageLayer \<Rightarrow> grid \<Rightarrow> EinkComposer \<times> error option" where
  "composite self l img =
     (let h = int (length img);
          w = int (ncols img);
          y_end = min (pos_y l + h) (height self);
          x_end = min (pos_x l + w) (width self)
      in if pos_y l < height self \<and> pos_x l < width self
         then (case setitem_block (canvas self) (pos_y l, y_end) (pos_x l, x_end)
                      (getitem_block img (y_end - pos_y l) (x_end - pos_x l)) of
                 Inl e \<Rightarrow> (self, Some e)
               | Inr cv \<Rightarrow> (self\<lparr>canvas := cv\<rparr>, None))
         else (self, None))"

definition process_image :: "helpers \<Rightarrow> EinkComposer \<Rightarrow> ImageLayer \<Rightarrow> grid \<Rightarrow> error + grid" where
  "process_image hp self l img =
     and_then (apply_transformations hp l img) (\<lambda>img.
     and_then (resize_to_target hp self l img) (\<lambda>img.
     and_then (apply_brightness_contrast hp l img) (\<lambda>img.
       apply_dithering hp l img)))"

definition render_image_layer :: "helpers \<Rightarrow> EinkComposer \<Rightarrow> ImageLayer \<Rightarrow> EinkComposer \<times> error option" where
  "render_image_layer hp self l =
     (if \<not> visible l then (self, None)
      else (case load_image hp l of
              None \<Rightarrow> (self, None)
            | Some loaded \<Rightarrow>
                (case and_then loaded (process_image hp self l) of
                   Inl e \<Rightarrow> (self, Some e)
                 | Inr img \<Rightarrow> composite self l img)))"

subsection \<open>Rendering text and rectangle layers\<close>

definition render_text_layer :: "helpers \<Rightarrow> EinkComposer \<Rightarrow> TextLayer \<Rightarrow> EinkComposer \<times> error option" where
  "render_text_layer hp self l =
     (if \<not> visible l \<or> text_str l = [] then (self, None)
      else (case render_text hp (text_str l) (pos_x l) (pos_y l) (canvas self) (text_color l) of
              (writes, raised) \<Rightarrow> (self\<lparr>canvas := foldl write_pixel (canvas self) writes\<rparr>, raised)))"

text \<open>
  \<^verbatim>\<open>_render_rectangle_layer\<close>. The outline is four assignments in a row; one that
  raises leaves the earlier ones on the canvas.
\<close>

definition draw_outline :: "grid \<Rightarrow> int \<Rightarrow> int \<Rightarrow> int \<Rightarrow> int \<Rightarrow> pixel \<Rightarrow> grid \<times> error option" where
  "draw_outline cv x1 y1 x2 y2 p =
     (case fill_row cv y1 (x1, x2) p of
        Inl e \<Rightarrow> (cv, Some e)
      | Inr cv1 \<Rightarrow>
     (case fill_row cv1 (y2 - 1) (x1, x2) p of
        Inl e \<Rightarrow> (cv1, Some e)
      | Inr cv2 \<Rightarrow>
     (case fill_col cv2 (y1, y2) x1 p of
        Inl e \<Rightarrow> (cv2, Some e)
      | Inr cv3 \<Rightarrow>
     (case fill_col cv3 (y1, y2) (x2 - 1) p of
        Inl e \<Rightarrow> (cv3, Some e)
      | Inr cv4 \<Rightarrow> (cv4, None)))))"

text \<open>The clipped bounds \<^verbatim>\<open>x1, y1, x2, y2\<close> of a rectangle layer.\<close>

definition clipped_bounds :: "EinkComposer \<Rightarrow> RectangleLayer \<Rightarrow> int \<times> int \<times> int \<times> int" where
  "clipped_bounds self l =
     (max 0 (pos_x l), max 0 (pos_y l),
      min (width self) (pos_x l + rect_width l), min (height self) (pos_y l + rect_height l))"

definition render_rectangle_layer :: "EinkComposer \<Rightarrow> RectangleLayer \<Rightarrow> EinkComposer \<times> error option" where
  "render_rectangle_layer self l =
     (if \<not> visible l then (self, None)
      else
        (case clipped_bounds self l of (x1, y1, x2, y2) \<Rightarrow>
           if x1 \<ge> x2 \<or> y1 \<ge> y2 then (self, None)
           else (case to_uint8 (rect_color l) of
                   Inl e \<Rightarrow> (self, Some e)
                 | Inr p \<Rightarrow>
                     if filled l then (self\<lparr>canvas := fill_block (canvas self) (y1, y2) (x1, x2) p\<rparr>, None)
                     else (case draw_outline (canvas self) x1 y1 x2 y2 p of
                             (cv, raised) \<Rightarrow> (self\<lparr>canvas := cv\<rparr>, raised)))))"

subsection \<open>Rendering the composition\<close>

datatype transform = FlipH | FlipV | Rotate90 | Invert

definition render_layer :: "helpers \<Rightarrow> EinkComposer \<Rightarrow> layer \<Rightarrow> EinkComposer \<times> error option" where
  "render_layer hp self l =
     (case l of
        Image il \<Rightarrow> render_image_layer hp self il
      | Text tx \<Rightarrow> render_text_layer hp self tx
      | Rectangle rc \<Rightarrow> render_rectangle_layer self rc)"

text \<open>\<^verbatim>\<open>for layer in self.layers\<close>: an exception ends the loop.\<close>

fun render_layers :: "helpers \<Rightarrow> EinkComposer \<Rightarrow> layer list \<Rightarrow> EinkComposer \<times> error option" where
  "render_layers hp self [] = (self, None)"
| "render_layers hp self (l # ls) =
     (case render_layer hp self l of
        (self', Some e) \<Rightarrow> (self', Some e)
      | (self', None) \<Rightarrow> render_layers hp self' ls)"

definition apply_transform :: "helpers \<Rightarrow> transform \<Rightarrow> grid \<Rightarrow> error + grid" where
  "apply_transform hp t g =
     (case t of
        FlipH \<Rightarrow> flip_horizontal hp g
      | FlipV \<Rightarrow> flip_vertical hp g
      | Rotate90 \<Rightarrow> rotate_ccw_90 hp g
      | Invert \<Rightarrow> invert_colors hp g)"

fun apply_transforms :: "helpers \<Rightarrow> transform list \<Rightarrow> grid \<Rightarrow> error + grid" where
  "apply_transforms hp [] g = Inr g"
| "apply_transforms hp (t # ts) g = and_then (apply_transform hp t g) (apply_transforms hp ts)"

definition final_pass :: "helpers \<Rightarrow> dither_mode option \<Rightarrow> transform list \<Rightarrow> grid \<Rightarrow> error + grid" where
  "final_pass hp final_dither transformations result =
     and_then (case final_dither of
                 Some FloydSteinberg \<Rightarrow> floyd_steinberg_dither hp result
               | Some Threshold \<Rightarrow> threshold_dither hp result
               | _ \<Rightarrow> Inr result)
              (apply_transforms hp transformations)"

text \<open>
  \<^verbatim>\<open>render\<close>: the composer after the call, and the returned grid or the exception.
  \<^verbatim>\<open>transformations=None\<close> is the empty list.
\<close>

definition render ::
  "helpers \<Rightarrow> EinkComposer \<Rightarrow> int \<Rightarrow> dither_mode option \<Rightarrow> transform list \<Rightarrow> EinkComposer \<times> (error + grid)" where
  "render hp self background_color final_dither transformations =
     (case to_uint8 background_color of
        Inl e \<Rightarrow> (self, Inl e)
      | Inr bg \<Rightarrow>
          (case render_layers hp (self\<lparr>canvas := fill_canvas (canvas self) bg\<rparr>) (layers self) of
             (self', Some e) \<Rightarrow> (self', Inl e)
           | (self', None) \<Rightarrow> (self', final_pass hp final_dither transformations (canvas self'))))"

section \<open>The helper modules as the specification describes them\<close>

text \<open>
  The modules \<^verbatim>\<open>eink_composer/dithering.py\<close>, \<^verbatim>\<open>eink_composer/image_ops.py\<close>
  and \<^verbatim>\<open>eink_composer/text.py\<close> are not among the source files. The functions
  below follow sections 4.1, 4.2 and 4.4 of the specification; they are one instance
  of \<open>helpers\<close>, used where a statement is about what a helper computes and to run
  the composer on concrete inputs.
\<close>

definition tabulate :: "nat \<Rightarrow> nat \<Rightarrow> (nat \<Rightarrow> nat \<Rightarrow> 'a) \<Rightarrow> 'a list list" where
  "tabulate h w f = map (\<lambda>i. map (\<lambda>j. f i j) [0..<w]) [0..<h]"

definition empty_grid :: "'a list list \<Rightarrow> bool" where
  "empty_grid g = (g = [] \<or> ncols g = 0)"

text \<open>
  Modelled from the spec: \<^verbatim>\<open>image_ops.flip_horizontal\<close> and
  \<^verbatim>\<open>image_ops.flip_vertical\<close>, which reverse the columns and the rows.
\<close>

definition spec_flip_horizontal :: "grid \<Rightarrow> error + grid" where
  "spec_flip_horizontal g = Inr (map rev g)"

definition spec_flip_vertical :: "grid \<Rightarrow> error + grid" where
  "spec_flip_vertical g = Inr (rev g)"

text \<open>
  Modelled from the spec: \<^verbatim>\<open>image_ops.rotate_ccw_90\<close>, one counter-clockwise
  quarter turn: the new grid has width and height swapped, and its pixel at
  \<open>(r, c)\<close> is the original's at row \<open>c\<close>, column \<open>old_width - 1 - r\<close>.
\<close>

definition spec_rotate_ccw_90 :: "grid \<Rightarrow> error + grid" where
  "spec_rotate_ccw_90 g = Inr (tabulate (ncols g) (length g) (\<lambda>r c. g ! c ! (ncols g - 1 - r)))"

text \<open>Modelled from the spec: \<^verbatim>\<open>image_ops.invert_colors\<close>, pixel to 255 - pixel.\<close>

definition spec_invert_colors :: "grid \<Rightarrow> error + grid" where
  "spec_invert_colors g = Inr (map (map (\<lambda>p. 255 - p)) g)"

text \<open>
  Modelled from the spec: \<^verbatim>\<open>dithering.threshold_dither\<close>, pixel to 255 if
  pixel > 128 else 0, failing with InvalidInput on an empty grid.
\<close>

definition spec_threshold_dither :: "grid \<Rightarrow> error + grid" where
  "spec_threshold_dither g =
     (if empty_grid g then Inl InvalidInput
      else Inr (map (map (\<lambda>p. if p > 128 then 255 else 0)) g))"

text \<open>
  Modelled from the spec: \<^verbatim>\<open>image_ops.resize_image\<close>. It fails with
  InvalidDimension when a target size is not positive. \<open>stretch\<close> is a
  nearest-neighbour resample to exactly the target; \<open>fit\<close> scales the image, keeping
  its aspect ratio, to the largest size inside the target box and centres it on white;
  \<open>crop\<close> scales it to the smallest size covering the box and cuts the window at the
  anchor, clamped into the scaled image, or at the centre. The specification leaves the
  rounding open; scaled sizes are rounded down here.
\<close>

definition resample :: "grid \<Rightarrow> nat \<Rightarrow> nat \<Rightarrow> nat \<Rightarrow> nat \<Rightarrow> pixel" where
  "resample g sh sw i j = g ! (i * length g div sh) ! (j * ncols g div sw)"

definition spec_resize_image ::
  "grid \<Rightarrow> int \<Rightarrow> int \<Rightarrow> resize_mode \<Rightarrow> int option \<Rightarrow> int option \<Rightarrow> error + grid" where
  "spec_resize_image g target_w target_h policy anchor_x anchor_y =
     (if target_w \<le> 0 \<or> target_h \<le> 0 then Inl InvalidDimension
      else if empty_grid g then Inl InvalidInput
      else
        (let tw = nat target_w; th = nat target_h; h = length g; w = ncols g;
             tall = (w * th \<le> h * tw)
         in Inr (case policy of
              Stretch \<Rightarrow> tabulate th tw (resample g th tw)
            | Fit \<Rightarrow>
                (let sh = (if tall then th else max 1 (h * tw div w));
                     sw = (if tall then max 1 (w * th div h) else tw);
                     oy = (th - sh) div 2; ox = (tw - sw) div 2
                 in tabulate th tw (\<lambda>i j.
                      if oy \<le> i \<and> i < oy + sh \<and> ox \<le> j \<and> j < ox + sw
                      then resample g sh sw (i - oy) (j - ox) else 255))
            | Crop \<Rightarrow>
                (let sh = (if tall then h * tw div w else th);
                     sw = (if tall then tw else w * th div h);
                     oy = (case anchor_y of None \<Rightarrow> (sh - th) div 2
                           | Some a \<Rightarrow> nat (max 0 (min (int (sh - th)) a)));
                     ox = (case anchor_x of None \<Rightarrow> (sw - tw) div 2
                           | Some a \<Rightarrow> nat (max 0 (min (int (sw - tw)) a)))
                 in tabulate th tw (\<lambda>i j. resample g sh sw (oy + i) (ox + j))))))"

text \<open>
  Modelled from the spec: \<^verbatim>\<open>image_ops.adjust_brightness_contrast\<close>, pixel to
  clamp(0, 255, pixel * brightness + contrast * 255), in exact arithmetic.
\<close>

definition spec_adjust_brightness_contrast :: "grid \<Rightarrow> rat \<Rightarrow> rat \<Rightarrow> error + grid" where
  "spec_adjust_brightness_contrast g b c =
     Inr (map (map (\<lambda>p. word_of_int \<lfloor>max 0 (min 255 (of_nat (unat p) * b + c * 255))\<rfloor>)) g)"

text \<open>
  Modelled from the spec: \<^verbatim>\<open>dithering.floyd_steinberg_dither\<close>. Pixels are
  visited in row-major order over a working buffer (exact rationals here); each
  becomes 255 if its value is at least 128 and 0 otherwise, and the difference goes to
  the neighbours not yet visited, 7/16 east, 3/16 south-west, 5/16 south and 1/16
  south-east, dropped outside the grid.
\<close>

definition add_error :: "rat list list \<Rightarrow> int \<Rightarrow> int \<Rightarrow> rat \<Rightarrow> rat list list" where
  "add_error buf i j v =
     (if 0 \<le> i \<and> i < int (length buf) \<and> 0 \<le> j \<and> j < int (length (buf ! nat i))
      then buf[nat i := (buf ! nat i)[nat j := buf ! nat i ! nat j + v]]
      else buf)"

definition diffuse :: "rat list list \<Rightarrow> nat \<times> nat \<Rightarrow> rat list list" where
  "diffuse buf ij =
     (case ij of (i, j) \<Rightarrow>
        (let v = buf ! i ! j;
             out = (if v \<ge> 128 then 255 else 0);
             e = v - out;
             b0 = buf[i := (buf ! i)[j := out]];
             b1 = add_error b0 (int i) (int j + 1) (e * 7 / 16);
             b2 = add_error b1 (int i + 1) (int j - 1) (e * 3 / 16);
             b3 = add_error b2 (int i + 1) (int j) (e * 5 / 16)
         in add_error b3 (int i + 1) (int j + 1) (e / 16)))"

definition spec_floyd_steinberg_dither :: "grid \<Rightarrow> error + grid" where
  "spec_floyd_steinberg_dither g =
     (if empty_grid g then Inl InvalidInput
      else Inr (map (map (\<lambda>v. if v \<ge> 128 then 255 else 0))
                 (foldl diffuse (map (map (\<lambda>p. of_nat (unat p))) g)
                    (List.product [0..<length g] [0..<ncols g]))))"

text \<open>
  Modelled from the spec: \<^verbatim>\<open>text.render_text\<close> over a glyph table \<open>font\<close> and
  a fixed advance. The glyphs are written left to right from \<open>(x, y)\<close>; only ink
  pixels are written, with the colour, and what falls outside the canvas is clipped.
\<close>

definition glyph_ink :: "bool list list \<Rightarrow> (nat \<times> nat) list" where
  "glyph_ink gl = filter (\<lambda>(r, c). gl ! r ! c) (List.product [0..<length gl] [0..<ncols gl])"

definition spec_render_text ::
  "(char \<Rightarrow> bool list list) \<Rightarrow> nat \<Rightarrow> string \<Rightarrow> int \<Rightarrow> int \<Rightarrow> grid \<Rightarrow> int \<Rightarrow> ((nat \<times> nat) \<times> pixel) list \<times> error option" where
  "spec_render_text font advance s x y cv color =
     (concat (map (\<lambda>(k, ch).
        concat (map (\<lambda>(r, c).
          (let row = y + int r; col = x + int (k * advance) + int c
           in if 0 \<le> row \<and> row < int (length cv) \<and> 0 \<le> col \<and> col < int (ncols cv)
              then [((nat row, nat col), word_of_int color)] else []))
          (glyph_ink (font ch)))) (enumerate 0 s)), None)"

text \<open>
  An instance of the helpers: the functions above, no readable image file, and a font
  table without entries, whose every character is the placeholder, a 5 by 7 box.
\<close>

definition spec_helpers :: helpers where
  "spec_helpers =
     \<lparr>image_open = (\<lambda>_. Inl LoadError),
      flip_horizontal = spec_flip_horizontal,
      flip_vertical = spec_flip_vertical,
      rotate_ccw_90 = spec_rotate_ccw_90,
      invert_colors = spec_invert_colors,
      resize_image = spec_resize_image,
      adjust_brightness_contrast = spec_adjust_brightness_contrast,
      floyd_steinberg_dither = spec_floyd_steinberg_dither,
      threshold_dither = spec_threshold_dither,
      render_text = spec_render_text (\<lambda>_. replicate 7 (replicate 5 True)) 6\<rparr>"

section \<open>Sample compositions\<close>

text \<open>A fresh composer of the given size: what \<open>new_composer\<close> returns on success.\<close>

definition blank :: "nat \<Rightarrow> nat \<Rightarrow> EinkComposer" where
  "blank w h = \<lparr>width = int w, height = int h, layers = [],
                canvas = replicate h (replicate w 255)\<rparr>"

text \<open>Two rectangle layers that bear the same id.\<close>

definition two_same_id :: EinkComposer where
  "two_same_id = (blank 4 3)\<lparr>layers :=
     [Rectangle (new_RectangleLayer ''a''), Rectangle ((new_RectangleLayer ''a'')\<lparr>pos_x := 2\<rparr>)]\<rparr>"


subsection \<open>The transform order in the words of the specification\<close>

text \<open>
  Section 4.3: the horizontal flip, then the vertical flip, then the rotation, as
  \<open>(rotate mod 360) div 90\<close> counter-clockwise quarter turns; a helper that raises
  ends the chain.
\<close>

definition transforms_in_order :: "helpers \<Rightarrow> bool \<Rightarrow> bool \<Rightarrow> int \<Rightarrow> grid \<Rightarrow> error + grid" where
  "transforms_in_order hp fh fv r img =
     and_then (if fh then flip_horizontal hp img else Inr img) (\<lambda>a.
     and_then (if fv then flip_vertical hp a else Inr a)
       (rotate_loop hp (nat ((r mod 360) div 90))))"

text \<open>
  The scenario of section 8 of the specification: a 100 by 100 composer with one image
  layer at (0, 0) whose source is a 50 by 50 grid of value 128, resize mode
  \<^verbatim>\<open>stretch\<close>, dither mode \<^verbatim>\<open>threshold\<close>.
\<close>

definition gray_scene :: EinkComposer where
  "gray_scene = (blank 100 100)\<lparr>layers :=
     [Image ((new_ImageLayer ''gray'')\<lparr>image_data := Some (replicate 50 (replicate 50 128)),
        resize_mode := Stretch, dither_mode := Threshold\<rparr>)]\<rparr>"

text \<open>
  A 4 by 3 composer with one image layer placed at column 4, past the right edge, and
  one with an image layer placed at column -1 whose 3 by 5 source already has the size
  of its footprint.
\<close>

definition off_canvas_scene :: EinkComposer where
  "off_canvas_scene = (blank 4 3)\<lparr>layers :=
     [Image ((new_ImageLayer ''photo'')\<lparr>image_data := Some [[10, 20], [30, 200]], pos_x := 4\<rparr>)]\<rparr>"

definition negative_scene :: EinkComposer where
  "negative_scene = (blank 4 3)\<lparr>layers :=
     [Image ((new_ImageLayer ''photo'')\<lparr>image_data := Some [[1, 2, 3, 4, 5], [6, 7, 8, 9, 10], [11, 12, 13, 14, 15]],
        pos_x := - 1, dither_mode := NoDither\<rparr>)]\<rparr>"

text \<open>
  Two composers have the same frame when they agree on everything but the values of
  the canvas pixels.
\<close>

definition same_frame :: "EinkComposer \<Rightarrow> EinkComposer \<Rightarrow> bool" where
  "same_frame a b = (width a = width b \<and> height a = height b \<and> layers a = layers b \<and> map length (canvas a) = map length (canvas b))"

section \<open>Rendering leaves the composition alone\<close>

lemma length_mapi: "length (mapi f xs) = length xs"
  by (simp add: mapi_def)

lemma nth_mapi: "i < length xs \<Longrightarrow> mapi f xs ! i = f i (xs ! i)"
  by (simp add: mapi_def nth_enumerate_eq)

lemma map_length_mapi:
  assumes "\<And>i row. length (f i row) = length row"
  shows "map length (mapi f xs) = map length xs"
  by (rule nth_equalityI) (simp_all add: length_mapi nth_mapi assms)

lemma map_length_setitem_block:
  "setitem_block cv rs cs src = Inr cv' \<Longrightarrow> map length cv' = map length cv"
  by (auto simp: setitem_block_def Let_def length_mapi split: prod.splits if_splits intro!: map_length_mapi)

lemma map_length_fill_block: "map length (fill_block cv rs cs p) = map length cv"
  by (auto simp: fill_block_def Let_def length_mapi split: prod.splits intro!: map_length_mapi)

lemma map_length_fill_row:
  "fill_row cv i cs p = Inr cv' \<Longrightarrow> map length cv' = map length cv"
  by (auto simp: fill_row_def and_then_def Let_def length_mapi split: prod.splits sum.splits intro!: map_length_mapi)

lemma map_length_fill_col:
  "fill_col cv rs j p = Inr cv' \<Longrightarrow> map length cv' = map length cv"
  by (auto simp: fill_col_def and_then_def Let_def length_mapi split: prod.splits sum.splits intro!: map_length_mapi)

lemma map_length_write_pixel: "map length (write_pixel cv w) = map length cv"
  by (auto simp: write_pixel_def map_update list_update_same_conv split: prod.splits)

lemma map_length_writes: "map length (foldl write_pixel cv ws) = map length cv"
  by (induction ws arbitrary: cv) (simp_all add: map_length_write_pixel)

lemma map_length_draw_outline:
  "draw_outline cv x1 y1 x2 y2 p = (cv', r) \<Longrightarrow> map length cv' = map length cv"
  by (auto simp: draw_outline_def split: sum.splits dest!: map_length_fill_row map_length_fill_col)

lemma frame_image: "render_image_layer hp s l = (s', r) \<Longrightarrow> same_frame s' s"
  by (auto simp: render_image_layer_def composite_def Let_def same_frame_def split: if_splits option.splits sum.splits dest: map_length_setitem_block)

lemma frame_text: "render_text_layer hp s l = (s', r) \<Longrightarrow> same_frame s' s"
  by (auto simp: render_text_layer_def same_frame_def map_length_writes split: if_splits prod.splits)

lemma frame_rectangle: "render_rectangle_layer s l = (s', r) \<Longrightarrow> same_frame s' s"
  by (auto simp: render_rectangle_layer_def same_frame_def map_length_fill_block split: if_splits prod.splits sum.splits dest: map_length_draw_outline)

lemma frame_layer: "render_layer hp s l = (s', r) \<Longrightarrow> same_frame s' s"
  by (cases l) (auto simp: render_layer_def dest: frame_image frame_text frame_rectangle)

lemma same_frame_trans: "same_frame a b \<Longrightarrow> same_frame b c \<Longrightarrow> same_frame a c"
  by (simp add: same_frame_def)

lemma frame_layers: "render_layers hp s ls = (s', r) \<Longrightarrow> same_frame s' s"
proof (induction ls arbitrary: s)
  case Nil
  then show ?case by (simp add: same_frame_def)
next
  case (Cons l ls)
  obtain s1 r1 where step: "render_layer hp s l = (s1, r1)" by (cases "render_layer hp s l")
  show ?case
  proof (cases r1)
    case None
    with Cons.prems step have "render_layers hp s1 ls = (s', r)" by simp
    from Cons.IH[OF this] frame_layer[OF step] show ?thesis by (rule same_frame_trans)
  next
    case (Some e)
    with Cons.prems step have "s' = s1" by simp
    with frame_layer[OF step] show ?thesis by simp
  qed
qed

lemma fill_canvas_by_lengths: "fill_canvas c p = map (\<lambda>n. replicate n p) (map length c)"
  by (simp add: fill_canvas_def map_replicate_const comp_def)

lemma fill_canvas_frame: "map length a = map length b \<Longrightarrow> fill_canvas a p = fill_canvas b p"
  by (simp only: fill_canvas_by_lengths)

lemma cleared_eq:
  "same_frame a b \<Longrightarrow> a\<lparr>canvas := fill_canvas (canvas a) p\<rparr> = b\<lparr>canvas := fill_canvas (canvas b) p\<rparr>"
  by (rule EinkComposer.equality) (auto simp: same_frame_def dest: fill_canvas_frame)

lemma same_frame_clear: "same_frame (s\<lparr>canvas := fill_canvas (canvas s) p\<rparr>) s"
  by (simp add: same_frame_def fill_canvas_def comp_def)

text \<open>
  C2. Rendering twice in a row, with the same options and no change to the composition
  in between, gives the same outcome both times (the same grid, or the same
  exception), whatever the helpers compute, as long as they are functions of their
  arguments (no image file changes between the calls); the first call leaves the layer
  list as it was (and so does the second, which ends in the same composer as the
  first). The canvas the first call leaves behind has no effect on the second, which
  clears it.
\<close>

theorem render_twice:
  "render hp (fst (render hp self bg fd ts)) bg fd ts = render hp self bg fd ts
   \<and> layers (fst (render hp self bg fd ts)) = layers self"
proof (cases "to_uint8 bg")
  case (Inl e)
  then show ?thesis by (simp add: render_def)
next
  case (Inr p)
  let ?s0 = "self\<lparr>canvas := fill_canvas (canvas self) p\<rparr>"
  obtain s1 r1 where run: "render_layers hp ?s0 (layers self) = (s1, r1)"
    by (cases "render_layers hp ?s0 (layers self)")
  have first: "fst (render hp self bg fd ts) = s1"
    using Inr run by (simp add: render_def split: option.splits)
  have "same_frame s1 ?s0" using run by (rule frame_layers)
  then have fr: "same_frame s1 self" using same_frame_clear by (rule same_frame_trans)
  then have lay: "layers s1 = layers self" by (simp add: same_frame_def)
  have "s1\<lparr>canvas := fill_canvas (canvas s1) p\<rparr> = ?s0" using fr by (rule cleared_eq)
  then have "render hp s1 bg fd ts = render hp self bg fd ts"
    using Inr lay by (simp add: render_def)
  with first lay show ?thesis by simp
qed

section \<open>Layer management by id\<close>

lemma toggle_layers_first:
  "\<forall>l\<in>set pre. id_of l \<noteq> i \<Longrightarrow> id_of l = i \<Longrightarrow>
   toggle_layers (pre @ l # post) i = (pre @ set_visible l (\<not> visible_of l) # post, True)"
  by (induction pre) auto

lemma update_layers_first:
  "\<forall>l\<in>set pre. id_of l \<noteq> i \<Longrightarrow> id_of l = i \<Longrightarrow>
   update_layers (pre @ l # post) i kw = (pre @ foldl setattr_layer l kw # post, True)"
  by (induction pre) auto

text \<open>
  C7, as the code has it. Where several layers bear the same id, \<^verbatim>\<open>toggle_layer\<close>
  and \<^verbatim>\<open>update_layer\<close> change the first layer with that id in the list, report
  \<^verbatim>\<open>True\<close> and leave every other layer, the later ones with that id included, as
  it was.
\<close>

theorem id_lookup_first_match:
  assumes "\<forall>k\<in>set pre. id_of k \<noteq> i" and "id_of l = i"
  shows "toggle_layer (self\<lparr>layers := pre @ l # post\<rparr>) i
           = (self\<lparr>layers := pre @ set_visible l (\<not> visible_of l) # post\<rparr>, True)
       \<and> update_layer (self\<lparr>layers := pre @ l # post\<rparr>) i kwargs
           = (self\<lparr>layers := pre @ foldl setattr_layer l kwargs # post\<rparr>, True)"
  using assms by (simp add: toggle_layer_def update_layer_def toggle_layers_first update_layers_first)

text \<open>The theorem on two layers with the id \<open>a\<close>: the first one changes.\<close>

theorem id_lookup_first_match_witness:
  "toggle_layer two_same_id ''a''
     = (two_same_id\<lparr>layers := [Rectangle ((new_RectangleLayer ''a'')\<lparr>visible := False\<rparr>),
                                 Rectangle ((new_RectangleLayer ''a'')\<lparr>pos_x := 2\<rparr>)]\<rparr>, True)
   \<and> update_layer two_same_id ''a'' [A_x 1, A_color 255]
     = (two_same_id\<lparr>layers := [Rectangle ((new_RectangleLayer ''a'')\<lparr>pos_x := 1, rect_color := 255\<rparr>),
                                 Rectangle ((new_RectangleLayer ''a'')\<lparr>pos_x := 2\<rparr>)]\<rparr>, True)"
  using id_lookup_first_match [where pre = "[]" and i = "''a''" and l = "Rectangle (new_RectangleLayer ''a'')"
      and self = "blank 4 3" and post = "[Rectangle ((new_RectangleLayer ''a'')\<lparr>pos_x := 2\<rparr>)]"
      and kwargs = "[A_x 1, A_color 255]"]
  by (simp add: two_same_id_def new_RectangleLayer_def)

text \<open>
  C7 as stated fails: with two layers of id \<open>a\<close>, \<^verbatim>\<open>toggle_layer\<close> hides the
  first and leaves the last visible, and \<^verbatim>\<open>update_layer\<close> recolours the first.
\<close>

theorem last_writer_wins_counterexample:
  "layers (fst (toggle_layer two_same_id ''a''))
     = [Rectangle ((new_RectangleLayer ''a'')\<lparr>visible := False\<rparr>),
        Rectangle ((new_RectangleLayer ''a'')\<lparr>pos_x := 2\<rparr>)]
   \<and> layers (fst (toggle_layer two_same_id ''a''))
     \<noteq> [Rectangle (new_RectangleLayer ''a''),
        Rectangle ((new_RectangleLayer ''a'')\<lparr>pos_x := 2, visible := False\<rparr>)]
   \<and> layers (fst (update_layer two_same_id ''a'' [A_color 255]))
     = [Rectangle ((new_RectangleLayer ''a'')\<lparr>rect_color := 255\<rparr>),
        Rectangle ((new_RectangleLayer ''a'')\<lparr>pos_x := 2\<rparr>)]"
  by (simp add: toggle_layer_def update_layer_def two_same_id_def new_RectangleLayer_def)

text \<open>
  C8 at a concrete composition with no layer of id \<open>zz\<close>: all three calls leave the
  composition as it is, \<^verbatim>\<open>update_layer\<close> and \<^verbatim>\<open>toggle_layer\<close> return
  \<^verbatim>\<open>False\<close>, and \<^verbatim>\<open>remove_layer\<close> returns \<^verbatim>\<open>True\<close>.
\<close>

theorem unknown_id_results:
  "remove_layer two_same_id ''zz'' = (two_same_id, True)
   \<and> update_layer two_same_id ''zz'' [A_x 1] = (two_same_id, False)
   \<and> toggle_layer two_same_id ''zz'' = (two_same_id, False)"
  by (simp add: remove_layer_def toggle_layer_def update_layer_def two_same_id_def new_RectangleLayer_def)

text \<open>The same for every composition and every id that no layer bears.\<close>

lemma toggle_layers_unknown: "\<forall>l\<in>set ls. id_of l \<noteq> i \<Longrightarrow> toggle_layers ls i = (ls, False)"
  by (induction ls) auto

lemma update_layers_unknown: "\<forall>l\<in>set ls. id_of l \<noteq> i \<Longrightarrow> update_layers ls i kw = (ls, False)"
  by (induction ls) auto

theorem unknown_id_general:
  assumes "\<forall>l\<in>set (layers self). id_of l \<noteq> i"
  shows "update_layer self i kwargs = (self, False) \<and> toggle_layer self i = (self, False)
         \<and> remove_layer self i = (self, True)"
  using assms by (simp add: update_layer_def toggle_layer_def remove_layer_def
      toggle_layers_unknown update_layers_unknown filter_id_conv)

text \<open>The theorem on a composition whose only layer has the id \<open>title\<close>.\<close>

theorem unknown_id_general_witness:
  "update_layer ((blank 4 3)\<lparr>layers := [Text (new_TextLayer ''title'')]\<rparr>) ''logo'' [A_visible False]
     = ((blank 4 3)\<lparr>layers := [Text (new_TextLayer ''title'')]\<rparr>, False)
   \<and> toggle_layer ((blank 4 3)\<lparr>layers := [Text (new_TextLayer ''title'')]\<rparr>) ''logo''
     = ((blank 4 3)\<lparr>layers := [Text (new_TextLayer ''title'')]\<rparr>, False)
   \<and> remove_layer ((blank 4 3)\<lparr>layers := [Text (new_TextLayer ''title'')]\<rparr>) ''logo''
     = ((blank 4 3)\<lparr>layers := [Text (new_TextLayer ''title'')]\<rparr>, True)"
  using unknown_id_general [of "(blank 4 3)\<lparr>layers := [Text (new_TextLayer ''title'')]\<rparr>" "''logo''" "[A_visible False]"]
  by (simp add: new_TextLayer_def)


section \<open>Image layers\<close>

text \<open>
  C10. An image layer with no image data and with no path, or the empty path, is
  skipped: rendering it raises nothing and returns the composer, canvas included, as
  it was.
\<close>

theorem image_layer_without_source_skipped:
  assumes "image_data l = None" and "image_path l = None \<or> image_path l = Some []"
  shows "render_layer hp self (Image l) = (self, None)"
  using assms by (auto simp: render_layer_def render_image_layer_def load_image_def)

text \<open>The theorem on a layer with neither data nor path, and on one with the empty path.\<close>

theorem image_layer_without_source_skipped_witness:
  "render_layer spec_helpers (blank 4 3) (Image (new_ImageLayer ''logo'')) = (blank 4 3, None)
   \<and> render_layer spec_helpers (blank 4 3) (Image ((new_ImageLayer ''logo'')\<lparr>image_path := Some []\<rparr>)) = (blank 4 3, None)"
  using image_layer_without_source_skipped [of "new_ImageLayer ''logo''" spec_helpers "blank 4 3"]
    image_layer_without_source_skipped [of "(new_ImageLayer ''logo'')\<lparr>image_path := Some []\<rparr>" spec_helpers "blank 4 3"]
  by (simp add: new_ImageLayer_def)

lemma apply_transformations_in_order:
  "apply_transformations hp l img = transforms_in_order hp (flip_h l) (flip_v l) (rotate_deg l) img"
proof (cases "rotate_deg l = 0")
  case True
  have "rotate_loop hp (nat ((0 mod 360) div 90)) = Inr" by (rule ext) simp
  with True show ?thesis
    by (simp add: apply_transformations_def transforms_in_order_def)
next
  case False
  then show ?thesis
    by (simp add: apply_transformations_def transforms_in_order_def Let_def)
qed

lemma and_then_Inr [simp]: "and_then (Inr v) f = f v"
  by (simp add: and_then_def)

lemma and_then_Inl [simp]: "and_then (Inl e) f = Inl e"
  by (simp add: and_then_def)

lemma apply_transformations_none:
  "\<not> flip_h l \<Longrightarrow> \<not> flip_v l \<Longrightarrow> rotate_deg l = 0 \<Longrightarrow> apply_transformations hp l img = Inr img"
  by (simp add: apply_transformations_def)

lemma later_stages_cong:
  assumes "pos_x l = pos_x k" "pos_y l = pos_y k" "resize_mode l = resize_mode k"
    "crop_x l = crop_x k" "crop_y l = crop_y k" "brightness l = brightness k"
    "contrast l = contrast k" "dither_mode l = dither_mode k"
  shows "resize_to_target hp self l = resize_to_target hp self k"
    and "apply_brightness_contrast hp l = apply_brightness_contrast hp k"
    and "apply_dithering hp l = apply_dithering hp k"
    and "composite self l = composite self k"
  using assms
  by (simp_all add: fun_eq_iff resize_to_target_def apply_brightness_contrast_def
      apply_dithering_def composite_def Let_def cong: if_cong)

lemma process_image_pretransformed:
  assumes "transforms_in_order hp (flip_h l) (flip_v l) (rotate_deg l) img = Inr img'"
  shows "process_image hp self l img
       = process_image hp self (l\<lparr>image_data := d, flip_h := False, flip_v := False, rotate_deg := 0\<rparr>) img'"
proof -
  let ?k = "l\<lparr>image_data := d, flip_h := False, flip_v := False, rotate_deg := 0\<rparr>"
  have one: "apply_transformations hp l img = Inr img'"
    using assms by (simp only: apply_transformations_in_order)
  have two: "apply_transformations hp ?k img' = Inr img'"
    by (rule apply_transformations_none) simp_all
  have rest: "resize_to_target hp self l = resize_to_target hp self ?k"
    "apply_brightness_contrast hp l = apply_brightness_contrast hp ?k"
    "apply_dithering hp l = apply_dithering hp ?k"
    by (rule later_stages_cong; simp)+
  show ?thesis
    unfolding process_image_def one two rest by simp
qed

text \<open>
  C5. Rendering an image layer that carries flips and a rotation is rendering the same
  layer without them on the source flipped horizontally, then vertically, then turned
  \<open>(rotate mod 360) div 90\<close> quarter turns: the transforms come first and in this
  order, before the resize and every later step. When one of them raises, the layer
  raises that exception (an invisible layer is skipped before).
\<close>

theorem image_layer_transform_order:
  "render_image_layer hp self (l\<lparr>image_data := Some img\<rparr>) =
     (case transforms_in_order hp (flip_h l) (flip_v l) (rotate_deg l) img of
        Inl e \<Rightarrow> if visible l then (self, Some e) else (self, None)
      | Inr img' \<Rightarrow> render_image_layer hp self
                     (l\<lparr>image_data := Some img', flip_h := False, flip_v := False, rotate_deg := 0\<rparr>))"
proof (cases "transforms_in_order hp (flip_h l) (flip_v l) (rotate_deg l) img")
  case (Inl e)
  then have "process_image hp self (l\<lparr>image_data := Some img\<rparr>) img = Inl e"
    by (simp add: process_image_def apply_transformations_in_order)
  with Inl show ?thesis
    by (simp add: render_image_layer_def load_image_def)
next
  case (Inr img')
  let ?k = "l\<lparr>image_data := Some img', flip_h := False, flip_v := False, rotate_deg := 0\<rparr>"
  have pr: "process_image hp self (l\<lparr>image_data := Some img\<rparr>) img = process_image hp self ?k img'"
    using process_image_pretransformed [of hp "l\<lparr>image_data := Some img\<rparr>" img img' self "Some img'"] Inr
    by simp
  have co: "composite self (l\<lparr>image_data := Some img\<rparr>) = composite self ?k"
    by (rule later_stages_cong; simp)
  show ?thesis
    unfolding render_image_layer_def load_image_def using Inr pr co
    by (simp cong: sum.case_cong)
qed

text \<open>
  The theorem on a 1 by 2 source with a horizontal flip and a rotation by 450 degrees:
  one quarter turn of the flipped source.
\<close>

theorem image_layer_transform_order_witness:
  "render_image_layer spec_helpers (blank 1 2)
     ((new_ImageLayer ''i'')\<lparr>image_data := Some [[1, 2]], dither_mode := NoDither, flip_h := True, rotate_deg := 450\<rparr>)
   = render_image_layer spec_helpers (blank 1 2)
     ((new_ImageLayer ''i'')\<lparr>image_data := Some [[1], [2]], dither_mode := NoDither\<rparr>)"
  using image_layer_transform_order [where hp = spec_helpers and self = "blank 1 2"
      and l = "(new_ImageLayer ''i'')\<lparr>dither_mode := NoDither, flip_h := True, rotate_deg := 450\<rparr>"
      and img = "[[1, 2]]"]
  by (simp add: transforms_in_order_def new_ImageLayer_def spec_helpers_def spec_flip_horizontal_def
      spec_rotate_ccw_90_def tabulate_def ncols_def)

section \<open>Rectangle layers\<close>

lemma slice_indices_inside:
  "0 \<le> a \<Longrightarrow> a \<le> b \<Longrightarrow> b \<le> int n \<Longrightarrow> slice_indices a b n = (nat a, nat b)"
  by (simp add: slice_indices_def Let_def max_def min_def)

lemma ncols_rectangular: "rectangular g h w \<Longrightarrow> 0 < h \<Longrightarrow> ncols g = w"
  by (cases g) (auto simp: rectangular_def ncols_def)

lemma nth_fill_block:
  assumes "rectangular cv h w" "0 \<le> y1" "y1 < y2" "y2 \<le> int h" "0 \<le> x1" "x1 < x2" "x2 \<le> int w"
    and "i < h" "j < w"
  shows "fill_block cv (y1, y2) (x1, x2) p ! i ! j
       = (if y1 \<le> int i \<and> int i < y2 \<and> x1 \<le> int j \<and> int j < x2 then p else cv ! i ! j)"
proof -
  have len: "length cv = h" and row: "length (cv ! i) = w"
    using assms by (auto simp: rectangular_def list_all_length)
  have "0 < h" using assms by linarith
  then have nc: "ncols cv = w" using assms(1) by (simp add: ncols_rectangular)
  have r: "slice_indices y1 y2 (length cv) = (nat y1, nat y2)"
    using assms len by (intro slice_indices_inside) auto
  have c: "slice_indices x1 x2 (ncols cv) = (nat x1, nat x2)"
    using assms nc by (intro slice_indices_inside) auto
  have e: "(nat y1 \<le> i) = (y1 \<le> int i)" "(i < nat y2) = (int i < y2)"
    "(nat x1 \<le> j) = (x1 \<le> int j)" "(j < nat x2) = (int j < x2)"
    using assms by linarith+
  have "fill_block cv (y1, y2) (x1, x2) p ! i
      = (if nat y1 \<le> i \<and> i < nat y2
         then mapi (\<lambda>j q. if nat x1 \<le> j \<and> j < nat x2 then p else q) (cv ! i) else cv ! i)"
    using assms(8) len by (simp add: fill_block_def r [unfolded len] c [unfolded nc] nc nth_mapi)
  then show ?thesis
    using assms(9) row by (simp add: nth_mapi e)
qed

lemma rectangular_fill_block: "rectangular cv h w \<Longrightarrow> rectangular (fill_block cv rs cs p) h w"
proof -
  assume a: "rectangular cv h w"
  have "map length (fill_block cv rs cs p) = map length cv" by (rule map_length_fill_block)
  then have "length (fill_block cv rs cs p) = length cv"
    and "\<And>i. i < length cv \<Longrightarrow> length (fill_block cv rs cs p ! i) = length (cv ! i)"
    by (metis length_map, metis length_map nth_map)
  then show ?thesis using a
    by (simp add: rectangular_def list_all_length)
qed

lemma rectangular_blank: "rectangular (canvas (blank w h)) h w"
  by (simp add: blank_def rectangular_def list_all_iff)

text \<open>
  C9. With \<open>(x1, y1, x2, y2)\<close> the bounds of a rectangle layer clipped against the
  canvas: when they are empty (\<open>x1 \<ge> x2\<close> or \<open>y1 \<ge> y2\<close>), rendering the layer
  raises nothing and returns the composer, canvas included, as it was. Otherwise a
  visible filled rectangle whose colour is a \<^verbatim>\<open>uint8\<close> value, on a canvas of the
  composer's height and width, raises nothing and gives the canvas in which exactly
  the pixels of rows \<open>y1..y2-1\<close> and columns \<open>x1..x2-1\<close> have the colour and every
  other pixel is as before.
\<close>

theorem rectangle_layer_clipping:
  assumes "clipped_bounds self l = (x1, y1, x2, y2)"
  shows "(x1 \<ge> x2 \<or> y1 \<ge> y2 \<longrightarrow> render_rectangle_layer self l = (self, None))
       \<and> (visible l \<and> filled l \<and> x1 < x2 \<and> y1 < y2 \<and> to_uint8 (rect_color l) = Inr p
            \<and> rectangular (canvas self) (nat (height self)) (nat (width self))
          \<longrightarrow> (\<exists>cv. render_rectangle_layer self l = (self\<lparr>canvas := cv\<rparr>, None)
                 \<and> rectangular cv (nat (height self)) (nat (width self))
                 \<and> (\<forall>i < nat (height self). \<forall>j < nat (width self).
                      cv ! i ! j = (if y1 \<le> int i \<and> int i < y2 \<and> x1 \<le> int j \<and> int j < x2
                                    then p else canvas self ! i ! j))))"
proof (intro conjI impI)
  assume "x1 \<ge> x2 \<or> y1 \<ge> y2"
  then show "render_rectangle_layer self l = (self, None)"
    using assms by (auto simp: render_rectangle_layer_def)
next
  assume h: "visible l \<and> filled l \<and> x1 < x2 \<and> y1 < y2 \<and> to_uint8 (rect_color l) = Inr p
            \<and> rectangular (canvas self) (nat (height self)) (nat (width self))"
  let ?cv = "fill_block (canvas self) (y1, y2) (x1, x2) p"
  have b: "0 \<le> x1" "0 \<le> y1" "x2 \<le> width self" "y2 \<le> height self"
    using assms by (auto simp: clipped_bounds_def)
  have run: "render_rectangle_layer self l = (self\<lparr>canvas := ?cv\<rparr>, None)"
    using assms h by (auto simp: render_rectangle_layer_def)
  have rect: "rectangular ?cv (nat (height self)) (nat (width self))"
    using h by (simp add: rectangular_fill_block)
  have px: "\<forall>i < nat (height self). \<forall>j < nat (width self).
      ?cv ! i ! j = (if y1 \<le> int i \<and> int i < y2 \<and> x1 \<le> int j \<and> int j < x2 then p else canvas self ! i ! j)"
  proof (intro allI impI)
    fix i j assume "i < nat (height self)" "j < nat (width self)"
    then show "?cv ! i ! j = (if y1 \<le> int i \<and> int i < y2 \<and> x1 \<le> int j \<and> int j < x2 then p else canvas self ! i ! j)"
      using h b by (intro nth_fill_block [where h = "nat (height self)" and w = "nat (width self)"]) auto
  qed
  from run rect px
  show "\<exists>cv. render_rectangle_layer self l = (self\<lparr>canvas := cv\<rparr>, None)
                 \<and> rectangular cv (nat (height self)) (nat (width self))
                 \<and> (\<forall>i < nat (height self). \<forall>j < nat (width self).
                      cv ! i ! j = (if y1 \<le> int i \<and> int i < y2 \<and> x1 \<le> int j \<and> int j < x2
                                    then p else canvas self ! i ! j))"
    by blast
qed


text \<open>
  The theorem on the rectangle at (1000, 1000) of a 250 by 128 canvas, which changes
  nothing, and on a rectangle at (2, 1) of a 4 by 3 canvas, clipped to columns 2..3
  and rows 1..2.
\<close>

theorem rectangle_layer_clipping_witness:
  "render_rectangle_layer (blank 250 128) ((new_RectangleLayer ''r'')\<lparr>pos_x := 1000, pos_y := 1000\<rparr>)
     = (blank 250 128, None)
   \<and> (\<exists>cv. render_rectangle_layer (blank 4 3) ((new_RectangleLayer ''r'')\<lparr>pos_x := 2, pos_y := 1\<rparr>)
            = ((blank 4 3)\<lparr>canvas := cv\<rparr>, None)
          \<and> cv ! 1 ! 2 = 0 \<and> cv ! 2 ! 3 = 0 \<and> cv ! 0 ! 2 = 255 \<and> cv ! 1 ! 1 = 255)"
proof -
  let ?far = "(new_RectangleLayer ''r'')\<lparr>pos_x := 1000, pos_y := 1000\<rparr>"
  let ?in = "(new_RectangleLayer ''r'')\<lparr>pos_x := 2, pos_y := 1\<rparr>"
  have b1: "clipped_bounds (blank 250 128) ?far = (1000, 1000, 250, 128)"
    by (simp add: clipped_bounds_def blank_def new_RectangleLayer_def)
  have b2: "clipped_bounds (blank 4 3) ?in = (2, 1, 4, 3)"
    by (simp add: clipped_bounds_def blank_def new_RectangleLayer_def)
  have one: "render_rectangle_layer (blank 250 128) ?far = (blank 250 128, None)"
    using rectangle_layer_clipping [OF b1] by simp
  have pre: "visible ?in \<and> filled ?in \<and> (2::int) < 4 \<and> (1::int) < 3 \<and> to_uint8 (rect_color ?in) = Inr 0
      \<and> rectangular (canvas (blank 4 3)) (nat (height (blank 4 3))) (nat (width (blank 4 3)))"
    using rectangular_blank [of 4 3] by (simp add: new_RectangleLayer_def to_uint8_def blank_def)
  from rectangle_layer_clipping [OF b2, of 0] pre
  obtain cv where run: "render_rectangle_layer (blank 4 3) ?in = ((blank 4 3)\<lparr>canvas := cv\<rparr>, None)"
    and px: "\<forall>i < nat (height (blank 4 3)). \<forall>j < nat (width (blank 4 3)).
               cv ! i ! j = (if 1 \<le> int i \<and> int i < 3 \<and> 2 \<le> int j \<and> int j < 4
                             then 0 else canvas (blank 4 3) ! i ! j)"
    by blast
  have "cv ! 1 ! 2 = 0 \<and> cv ! 2 ! 3 = 0 \<and> cv ! 0 ! 2 = 255 \<and> cv ! 1 ! 1 = 255"
    using px [rule_format, of 1 2] px [rule_format, of 2 3] px [rule_format, of 0 2] px [rule_format, of 1 1]
    by (simp add: blank_def)
  with one run show ?thesis by blast
qed

section \<open>The footprint of an image layer\<close>

lemma ncols_tabulate: "0 < h \<Longrightarrow> ncols (tabulate h w f) = w"
  by (simp add: tabulate_def ncols_def upt_conv_Cons)

lemma shape_tabulate: "0 < h \<Longrightarrow> shape (tabulate h w f) = (int h, int w)"
  by (simp add: shape_def ncols_tabulate) (simp add: tabulate_def)

lemma spec_resize_image_shape:
  assumes "spec_resize_image g tw th m ax ay = Inr out"
  shows "shape out = (th, tw)"
proof -
  from assms have pos: "0 < tw" "0 < th"
    by (auto simp: spec_resize_image_def split: if_splits)
  from assms obtain f where "out = tabulate (nat th) (nat tw) f"
    by (cases m) (auto simp: spec_resize_image_def Let_def split: if_splits)
  with pos show ?thesis by (simp add: shape_tabulate)
qed

text \<open>
  C1. The size an image layer is resized to is the canvas size minus the layer's
  position and nothing else: a source whose shape is not
  \<open>(height - y, width - x)\<close> is handed to \<^verbatim>\<open>resize_image\<close> with the target
  width \<open>width - x\<close> and the target height \<open>height - y\<close>, and with a
  \<^verbatim>\<open>resize_image\<close> that returns a grid of the size it is asked for, whatever
  leaves the resize step has exactly the shape \<open>(height - y, width - x)\<close>. An
  \<^verbatim>\<open>ImageLayer\<close> has no width or height field that could say otherwise.
\<close>

theorem image_layer_footprint:
  assumes "\<And>g tw th m ax ay res. resize_image hp g tw th m ax ay = Inr res \<Longrightarrow> shape res = (th, tw)"
  shows "(shape img \<noteq> (height self - pos_y l, width self - pos_x l) \<longrightarrow>
            resize_to_target hp self l img
            = resize_image hp img (width self - pos_x l) (height self - pos_y l)
                (resize_mode l) (crop_x l) (crop_y l))
       \<and> (\<forall>out. resize_to_target hp self l img = Inr out \<longrightarrow>
            shape out = (height self - pos_y l, width self - pos_x l))"
  using assms by (auto simp: resize_to_target_def Let_def split: if_splits)

text \<open>
  The theorem with the helpers of the specification, on a 2 by 2 source at (2, 1) of a
  5 by 4 canvas: the footprint is 3 by 3.
\<close>

theorem image_layer_footprint_witness:
  "resize_to_target spec_helpers (blank 5 4) ((new_ImageLayer ''i'')\<lparr>pos_x := 2, pos_y := 1\<rparr>) [[1, 2], [3, 4]]
     = spec_resize_image [[1, 2], [3, 4]] 3 3 Fit None None
   \<and> spec_resize_image [[1, 2], [3, 4]] 3 3 Fit None None = Inr [[1, 1, 2], [1, 1, 2], [3, 3, 4]]
   \<and> shape [[1, 1, 2], [1, 1, 2], [3, 3, (4::pixel)]] = (3, 3)"
proof -
  let ?l = "(new_ImageLayer ''i'')\<lparr>pos_x := 2, pos_y := 1\<rparr>"
  have ev: "spec_resize_image [[1, 2], [3, 4]] 3 3 Fit None None = Inr [[1, 1, 2], [1, 1, 2], [3, 3, 4]]"
    by code_simp
  have hp: "\<And>g tw th m ax ay res. resize_image spec_helpers g tw th m ax ay = Inr res \<Longrightarrow> shape res = (th, tw)"
    by (simp add: spec_helpers_def spec_resize_image_shape)
  have ne: "shape [[1, 2], [3, (4::pixel)]] \<noteq> (height (blank 5 4) - pos_y ?l, width (blank 5 4) - pos_x ?l)"
    by (simp add: shape_def ncols_def blank_def new_ImageLayer_def)
  from image_layer_footprint [of spec_helpers "[[1, 2], [3, 4]]" "blank 5 4" ?l, OF hp] ne ev
  show ?thesis
    by (simp add: blank_def new_ImageLayer_def spec_helpers_def)
qed

section \<open>The mid-gray scenario\<close>

lemma ncols_replicate: "0 < h \<Longrightarrow> ncols (replicate h r) = length r"
  by (cases h) (simp_all add: ncols_def)

lemma tabulate_const:
  assumes "\<And>i j. i < h \<Longrightarrow> j < w \<Longrightarrow> f i j = v"
  shows "tabulate h w f = replicate h (replicate w v)"
proof -
  have "\<And>i. i < h \<Longrightarrow> map (f i) [0..<w] = replicate w v"
    using assms by (intro nth_equalityI) simp_all
  then show ?thesis
    unfolding tabulate_def by (intro nth_equalityI) simp_all
qed

lemma stretch_uniform:
  assumes "0 < h" "0 < w" "0 < th" "0 < tw"
  shows "spec_resize_image (replicate h (replicate w v)) (int tw) (int th) Stretch ax ay
       = Inr (replicate th (replicate tw v))"
proof -
  let ?g = "replicate h (replicate w v)"
  have nc: "ncols ?g = w" using assms by (simp add: ncols_replicate)
  have "\<And>i j. i < th \<Longrightarrow> j < tw \<Longrightarrow> resample ?g th tw i j = v"
  proof -
    fix i j assume "i < th" "j < tw"
    then have "i * h div th < h" "j * w div tw < w"
      using assms by (simp_all add: less_mult_imp_div_less mult.commute)
    then show "resample ?g th tw i j = v" by (simp add: resample_def nc)
  qed
  then have "tabulate th tw (resample ?g th tw) = replicate th (replicate tw v)"
    by (rule tabulate_const)
  then show ?thesis
    using assms nc by (simp add: spec_resize_image_def empty_grid_def)
qed

lemma threshold_uniform:
  "0 < h \<Longrightarrow> 0 < w \<Longrightarrow>
   spec_threshold_dither (replicate h (replicate w v))
     = Inr (replicate h (replicate w (if v > 128 then 255 else 0)))"
  by (simp add: spec_threshold_dither_def empty_grid_def ncols_replicate)

lemma getitem_block_all:
  assumes "rectangular img h w" "0 < h"
  shows "getitem_block img (int h) (int w) = img"
proof -
  have len: "length img = h" and rows: "\<And>r. r \<in> set img \<Longrightarrow> length r = w"
    using assms by (auto simp: rectangular_def list_all_iff)
  have nc: "ncols img = w" using assms by (simp add: ncols_rectangular)
  have "map (\<lambda>row. take w row) img = img"
    using rows by (intro map_idI) simp
  then show ?thesis
    by (simp add: getitem_block_def slice_indices_def len nc)
qed

lemma setitem_block_all:
  assumes "rectangular cv h w" "rectangular src h w" "0 < h"
  shows "setitem_block cv (0, int h) (0, int w) src = Inr src"
proof -
  have len: "length cv = h" "length src = h"
    and rows: "\<And>i. i < h \<Longrightarrow> length (cv ! i) = w" "\<And>i. i < h \<Longrightarrow> length (src ! i) = w"
    using assms by (auto simp: rectangular_def list_all_length)
  have nc: "ncols cv = w" "ncols src = w" using assms by (simp_all add: ncols_rectangular)
  let ?new = "mapi (\<lambda>i row. if 0 \<le> i \<and> i < h
      then mapi (\<lambda>j p. if 0 \<le> j \<and> j < w
             then src ! (if h = 1 then 0 else i - 0) ! (if w = 1 then 0 else j - 0) else p) row
      else row) cv"
  have "?new = src"
  proof (intro nth_equalityI)
    show "length ?new = length src" by (simp add: length_mapi len)
  next
    fix i assume "i < length ?new"
    then have i: "i < h" by (simp add: length_mapi len)
    then show "length (?new ! i) = length (src ! i)"
      by (simp add: nth_mapi length_mapi len rows)
  next
    fix i j assume "i < length ?new" "j < length (?new ! i)"
    then have i: "i < h" and j: "j < w" by (simp_all add: length_mapi nth_mapi len rows)
    then show "?new ! i ! j = src ! i ! j"
      by (auto simp: nth_mapi len rows)
  qed
  then show ?thesis
    by (simp add: setitem_block_def slice_indices_def len nc)
qed

lemma rectangular_replicate: "rectangular (replicate h (replicate w v)) h w"
  by (simp add: rectangular_def list_all_iff)

lemma gray_scene_render:
  "render spec_helpers gray_scene 255 None []
     = (gray_scene\<lparr>canvas := replicate 100 (replicate 100 0)\<rparr>, Inr (replicate 100 (replicate 100 0)))"
proof -
  let ?l = "(new_ImageLayer ''gray'')\<lparr>image_data := Some (replicate 50 (replicate 50 128)),
        resize_mode := Stretch, dither_mode := Threshold\<rparr>"
  let ?out = "replicate 100 (replicate 100 (0::pixel))"
  have clear: "fill_canvas (canvas gray_scene) 255 = replicate 100 (replicate 100 255)"
    by (simp add: gray_scene_def blank_def fill_canvas_def)
  have resize: "resize_to_target spec_helpers gray_scene ?l (replicate 50 (replicate 50 128))
      = Inr (replicate 100 (replicate 100 128))"
    using stretch_uniform [of 50 50 100 100 128 None None]
    by (simp add: resize_to_target_def gray_scene_def blank_def new_ImageLayer_def shape_def
        spec_helpers_def ncols_replicate)
  have dither: "apply_dithering spec_helpers ?l (replicate 100 (replicate 100 128)) = Inr ?out"
    using threshold_uniform [of 100 100 128]
    by (simp add: apply_dithering_def new_ImageLayer_def spec_helpers_def)
  have proc: "process_image spec_helpers gray_scene ?l (replicate 50 (replicate 50 128)) = Inr ?out"
    using resize dither
    by (simp add: process_image_def apply_transformations_none apply_brightness_contrast_def
        new_ImageLayer_def)
  have blit: "setitem_block (replicate 100 (replicate 100 255)) (0, 100) (0, 100)
        (getitem_block ?out 100 100) = Inr ?out"
    using getitem_block_all [of ?out 100 100] setitem_block_all [of "replicate 100 (replicate 100 255)" 100 100 ?out]
    by (simp add: rectangular_replicate)
  have wd: "width gray_scene = 100" and ht: "height gray_scene = 100"
    and cv: "canvas gray_scene = replicate 100 (replicate 100 255)"
    and lay: "layers gray_scene = [Image ?l]"
    by (simp_all add: gray_scene_def blank_def)
  have s0: "gray_scene\<lparr>canvas := fill_canvas (canvas gray_scene) 255\<rparr> = gray_scene"
    by (simp add: clear) (simp add: gray_scene_def blank_def)
  have comp: "composite gray_scene ?l ?out = (gray_scene\<lparr>canvas := ?out\<rparr>, None)"
    using blit by (simp add: composite_def wd ht cv ncols_replicate new_ImageLayer_def)
  have img: "render_image_layer spec_helpers gray_scene ?l = (gray_scene\<lparr>canvas := ?out\<rparr>, None)"
    using proc comp by (simp add: render_image_layer_def load_image_def new_ImageLayer_def)
  have all: "render_layers spec_helpers gray_scene (layers gray_scene) = (gray_scene\<lparr>canvas := ?out\<rparr>, None)"
    using img by (simp add: lay render_layer_def)
  show ?thesis
    using all by (simp add: render_def to_uint8_def s0 final_pass_def)
qed


text \<open>
  C4, as the threshold rule has it. In the scenario the source is stretched to 100 by
  100 pixels of value 128, and 128 is not greater than 128: every pixel of the output
  is 0.
\<close>

theorem mid_gray_threshold_black:
  "snd (render spec_helpers gray_scene 255 None []) = Inr (replicate 100 (replicate 100 0))"
  by (simp add: gray_scene_render)

text \<open>
  C4 as stated fails: the output is not the grid of 255s, and its pixel at (0, 0) is 0.
\<close>

theorem mid_gray_threshold_counterexample:
  "snd (render spec_helpers gray_scene 255 None []) \<noteq> Inr (replicate 100 (replicate 100 255))
   \<and> (case snd (render spec_helpers gray_scene 255 None []) of Inl e \<Rightarrow> 255 | Inr g \<Rightarrow> g ! 0 ! 0) = 0"
  by (simp add: gray_scene_render)

section \<open>Image layers off the canvas\<close>

text \<open>
  C6 at a concrete composition: an image layer at column 4 of a 4 by 3 canvas has the
  target width 0; \<^verbatim>\<open>resize_image\<close> is called before the test
  \<^verbatim>\<open>layer.x < self.width\<close> is reached and fails, and so does \<^verbatim>\<open>render\<close>.
\<close>

theorem off_canvas_image_raises:
  "render spec_helpers off_canvas_scene 255 None [] = (off_canvas_scene, Inl InvalidDimension)"
  by code_simp

text \<open>
  C3 at a concrete composition: an image layer at column -1 of a 4 by 3 canvas, with a
  3 by 5 source. The slice \<^verbatim>\<open>canvas[0:3, -1:4]\<close> is the last column alone, the
  five columns of the source cannot be broadcast into it, and \<^verbatim>\<open>render\<close> ends
  with numpy's \<^verbatim>\<open>ValueError\<close>; nothing is drawn.
\<close>

theorem negative_position_raises:
  "render spec_helpers negative_scene 255 None [] = (negative_scene, Inl ValueError)"
  by code_simp

section \<open>Compositing at the canvas edges\<close>

lemma nth_getitem_block:
  assumes "rectangular img h w" "0 < h" "0 \<le> a" "0 \<le> b" "i < min h (nat a)" "j < min w (nat b)"
  shows "getitem_block img a b ! i ! j = img ! i ! j"
proof -
  have len: "length img = h" and rows: "\<And>k. k < h \<Longrightarrow> length (img ! k) = w"
    using assms by (auto simp: rectangular_def list_all_length)
  have nc: "ncols img = w" using assms by (simp add: ncols_rectangular)
  have r: "slice_indices 0 a h = (0, min h (nat a))" and c: "slice_indices 0 b w = (0, min w (nat b))"
    using assms by (auto simp: slice_indices_def Let_def min_def max_def)
  show ?thesis
    using assms len rows by (simp add: getitem_block_def nc r c)
qed

lemma rectangular_getitem_block:
  assumes "rectangular img h w" "0 < h" "0 < a" "0 \<le> b"
  shows "rectangular (getitem_block img a b) (min h (nat a)) (min w (nat b))"
proof -
  have len: "length img = h" and rows: "\<And>r. r \<in> set img \<Longrightarrow> length r = w"
    using assms by (auto simp: rectangular_def list_all_iff)
  have nc: "ncols img = w" using assms by (simp add: ncols_rectangular)
  have r: "slice_indices 0 a h = (0, min h (nat a))" and c: "slice_indices 0 b w = (0, min w (nat b))"
    using assms by (auto simp: slice_indices_def Let_def min_def max_def)
  show ?thesis
    using len rows by (auto simp: getitem_block_def nc r c rectangular_def list_all_iff dest: in_set_takeD)
qed

lemma nth_setitem_block:
  assumes cv: "rectangular cv h w" and src: "rectangular src (nat (y2 - y1)) (nat (x2 - x1))"
    and b: "0 \<le> y1" "y1 < y2" "y2 \<le> int h" "0 \<le> x1" "x1 < x2" "x2 \<le> int w"
  shows "\<exists>cv'. setitem_block cv (y1, y2) (x1, x2) src = Inr cv' \<and> rectangular cv' h w
      \<and> (\<forall>i<h. \<forall>j<w. cv' ! i ! j =
            (if y1 \<le> int i \<and> int i < y2 \<and> x1 \<le> int j \<and> int j < x2
             then src ! (i - nat y1) ! (j - nat x1) else cv ! i ! j))"
proof -
  have len: "length cv = h" and rows: "\<And>k. k < h \<Longrightarrow> length (cv ! k) = w"
    using cv by (auto simp: rectangular_def list_all_length)
  have hpos: "0 < h" using b by linarith
  have nc: "ncols cv = w" using cv hpos by (simp add: ncols_rectangular)
  have slen: "length src = nat (y2 - y1)" using src by (simp add: rectangular_def)
  have snc: "ncols src = nat (x2 - x1)" using src b by (intro ncols_rectangular) auto
  have r: "slice_indices y1 y2 h = (nat y1, nat y2)" and c: "slice_indices x1 x2 w = (nat x1, nat x2)"
    using b by (auto intro!: slice_indices_inside)
  have eqs: "nat (y2 - y1) = nat y2 - nat y1" "nat (x2 - x1) = nat x2 - nat x1"
    using b by linarith+
  let ?new = "mapi (\<lambda>i row. if nat y1 \<le> i \<and> i < nat y2
       then mapi (\<lambda>j p. if nat x1 \<le> j \<and> j < nat x2
              then src ! (if nat y2 - nat y1 = 1 then 0 else i - nat y1)
                       ! (if nat x2 - nat x1 = 1 then 0 else j - nat x1) else p) row
       else row) cv"
  have run: "setitem_block cv (y1, y2) (x1, x2) src = Inr ?new"
    by (simp add: setitem_block_def len nc slen snc r c eqs)
  define new where "new = ?new"
  have run': "setitem_block cv (y1, y2) (x1, x2) src = Inr new"
    using run by (simp only: new_def)
  have "map length new = map length cv"
    by (rule map_length_setitem_block [OF run'])
  then have "length new = length cv"
    and "\<And>i. i < length cv \<Longrightarrow> length (new ! i) = length (cv ! i)"
    by (metis length_map, metis length_map nth_map)
  then have rect: "rectangular ?new h w"
    using cv unfolding new_def by (simp add: rectangular_def list_all_length)
  have px: "\<forall>i<h. \<forall>j<w. ?new ! i ! j =
            (if y1 \<le> int i \<and> int i < y2 \<and> x1 \<le> int j \<and> int j < x2
             then src ! (i - nat y1) ! (j - nat x1) else cv ! i ! j)"
  proof (intro allI impI)
    fix i j assume i: "i < h" and j: "j < w"
    have e: "(nat y1 \<le> i) = (y1 \<le> int i)" "(i < nat y2) = (int i < y2)"
      "(nat x1 \<le> j) = (x1 \<le> int j)" "(j < nat x2) = (int j < x2)"
      using b by linarith+
    have rowi: "?new ! i = (if y1 \<le> int i \<and> int i < y2
       then mapi (\<lambda>j p. if nat x1 \<le> j \<and> j < nat x2
              then src ! (if nat y2 - nat y1 = 1 then 0 else i - nat y1)
                       ! (if nat x2 - nat x1 = 1 then 0 else j - nat x1) else p) (cv ! i)
       else cv ! i)"
      using i len by (simp add: nth_mapi e)
    show "?new ! i ! j =
            (if y1 \<le> int i \<and> int i < y2 \<and> x1 \<le> int j \<and> int j < x2
             then src ! (i - nat y1) ! (j - nat x1) else cv ! i ! j)"
    proof (cases "y1 \<le> int i \<and> int i < y2 \<and> x1 \<le> int j \<and> int j < x2")
      case True
      then have zi: "nat y2 - nat y1 = Suc 0 \<longrightarrow> i - nat y1 = 0"
        and zj: "nat x2 - nat x1 = Suc 0 \<longrightarrow> j - nat x1 = 0"
        using b by linarith+
      from True have "nat x1 \<le> j \<and> j < nat x2" using e by simp
      with True zi zj show ?thesis
        using j rows [OF i] by (auto simp: rowi nth_mapi)
    next
      case False
      then show ?thesis
        using j rows [OF i] by (auto simp: rowi nth_mapi e)
    qed
  qed
  from run rect px show ?thesis by blast
qed

text \<open>
  Where the position of an image layer is inside the canvas, compositing an image of
  any size raises nothing: it copies the part of the image that lies on the canvas,
  cut at the right and bottom edges, and leaves every other pixel as it was.
\<close>

theorem composite_clips_right_and_bottom:
  assumes cv: "rectangular (canvas self) (nat (height self)) (nat (width self))"
    and img: "rectangular img h w" "0 < h" "0 < w"
    and pos: "0 \<le> pos_x l" "pos_x l < width self" "0 \<le> pos_y l" "pos_y l < height self"
  shows "\<exists>cv'. composite self l img = (self\<lparr>canvas := cv'\<rparr>, None)
      \<and> rectangular cv' (nat (height self)) (nat (width self))
      \<and> (\<forall>i < nat (height self). \<forall>j < nat (width self). cv' ! i ! j =
            (if pos_y l \<le> int i \<and> int i < pos_y l + int h \<and> pos_x l \<le> int j \<and> int j < pos_x l + int w
             then img ! (i - nat (pos_y l)) ! (j - nat (pos_x l)) else canvas self ! i ! j))"
proof -
  let ?y = "pos_y l" and ?x = "pos_x l"
  let ?ye = "min (?y + int h) (height self)" and ?xe = "min (?x + int w) (width self)"
  let ?src = "getitem_block img (?ye - ?y) (?xe - ?x)"
  have len: "length img = h" using img by (simp add: rectangular_def)
  have nc: "ncols img = w" using img by (simp add: ncols_rectangular)
  have d: "0 < ?ye - ?y" "0 < ?xe - ?x" "nat (?ye - ?y) \<le> h" "nat (?xe - ?x) \<le> w"
    using img pos by auto
  have "rectangular ?src (min h (nat (?ye - ?y))) (min w (nat (?xe - ?x)))"
    using img d by (intro rectangular_getitem_block) auto
  then have src: "rectangular ?src (nat (?ye - ?y)) (nat (?xe - ?x))"
    using d by (simp add: min_absorb2)
  have b: "0 \<le> ?y" "?y < ?ye" "?ye \<le> int (nat (height self))"
    "0 \<le> ?x" "?x < ?xe" "?xe \<le> int (nat (width self))"
    using pos d by auto
  from nth_setitem_block [OF cv src b]
  obtain cv' where run: "setitem_block (canvas self) (?y, ?ye) (?x, ?xe) ?src = Inr cv'"
    and rect: "rectangular cv' (nat (height self)) (nat (width self))"
    and px: "\<forall>i < nat (height self). \<forall>j < nat (width self). cv' ! i ! j =
            (if ?y \<le> int i \<and> int i < ?ye \<and> ?x \<le> int j \<and> int j < ?xe
             then ?src ! (i - nat ?y) ! (j - nat ?x) else canvas self ! i ! j)"
    by blast
  have comp: "composite self l img = (self\<lparr>canvas := cv'\<rparr>, None)"
    using run pos by (simp add: composite_def Let_def len nc)
  have "\<forall>i < nat (height self). \<forall>j < nat (width self). cv' ! i ! j =
            (if ?y \<le> int i \<and> int i < ?y + int h \<and> ?x \<le> int j \<and> int j < ?x + int w
             then img ! (i - nat ?y) ! (j - nat ?x) else canvas self ! i ! j)"
  proof (intro allI impI)
    fix i j assume i: "i < nat (height self)" and j: "j < nat (width self)"
    let ?A = "?y \<le> int i \<and> int i < ?ye \<and> ?x \<le> int j \<and> int j < ?xe"
    let ?B = "?y \<le> int i \<and> int i < ?y + int h \<and> ?x \<le> int j \<and> int j < ?x + int w"
    have pxij: "cv' ! i ! j = (if ?A then ?src ! (i - nat ?y) ! (j - nat ?x) else canvas self ! i ! j)"
      using px i j by blast
    have c: "?A = ?B" using i j by auto
    show "cv' ! i ! j = (if ?B then img ! (i - nat ?y) ! (j - nat ?x) else canvas self ! i ! j)"
    proof (cases ?B)
      case True
      then have A: ?A using c by blast
      have yi: "int (i - nat ?y) = int i - ?y"
        using True pos(3) by linarith
      have xj: "int (j - nat ?x) = int j - ?x"
        using True pos(1) by linarith
      have lt: "int i - ?y < int h" "int i - ?y < ?ye - ?y" "int j - ?x < int w" "int j - ?x < ?xe - ?x"
        using True A by simp_all
      have "i - nat ?y < h" "j - nat ?x < w"
        using lt(1,3) yi xj by linarith+
      moreover have "i - nat ?y < nat (?ye - ?y)"
        using lt(2) yi by (simp only: zless_nat_eq_int_zless)
      moreover have "j - nat ?x < nat (?xe - ?x)"
        using lt(4) xj by (simp only: zless_nat_eq_int_zless)
      ultimately
      have "i - nat ?y < h" "i - nat ?y < nat (?ye - ?y)" "j - nat ?x < w" "j - nat ?x < nat (?xe - ?x)"
        by blast+
      then have m1: "i - nat ?y < min h (nat (?ye - ?y))" and m2: "j - nat ?x < min w (nat (?xe - ?x))"
        by simp_all
      have "?src ! (i - nat ?y) ! (j - nat ?x) = img ! (i - nat ?y) ! (j - nat ?x)"
        by (rule nth_getitem_block [OF img(1) img(2) less_imp_le [OF d(1)] less_imp_le [OF d(2)] m1 m2])
      moreover have "cv' ! i ! j = ?src ! (i - nat ?y) ! (j - nat ?x)"
        unfolding pxij by (rule if_P [OF A])
      ultimately show ?thesis
        using if_P [OF True] by metis
    next
      case False
      then have nA: "\<not> ?A" using c by blast
      have "cv' ! i ! j = canvas self ! i ! j"
        unfolding pxij by (rule if_not_P [OF nA])
      then show ?thesis
        using if_not_P [OF False] by metis
    qed
  qed
  with comp rect show ?thesis by blast
qed

text \<open>The theorem on a 3 by 3 image at (2, 1) of a 4 by 3 canvas.\<close>

theorem composite_clips_right_and_bottom_witness:
  "\<exists>cv'. composite (blank 4 3) ((new_ImageLayer ''photo'')\<lparr>pos_x := 2, pos_y := 1\<rparr>)
             [[1, 2, 3], [4, 5, 6], [7, 8, 9]] = ((blank 4 3)\<lparr>canvas := cv'\<rparr>, None)
         \<and> cv' ! 1 ! 2 = 1 \<and> cv' ! 1 ! 3 = 2 \<and> cv' ! 2 ! 3 = 5 \<and> cv' ! 0 ! 2 = 255 \<and> cv' ! 2 ! 1 = 255"
proof -
  let ?l = "(new_ImageLayer ''photo'')\<lparr>pos_x := 2, pos_y := 1\<rparr>"
  let ?img = "[[1, 2, 3], [4, 5, 6], [7, 8, 9::pixel]]"
  have cv: "rectangular (canvas (blank 4 3)) (nat (height (blank 4 3))) (nat (width (blank 4 3)))"
    using rectangular_blank [of 4 3] by (simp add: blank_def)
  have img: "rectangular ?img 3 3" "(0::nat) < 3" "(0::nat) < 3"
    by (simp_all add: rectangular_def)
  have pos: "0 \<le> pos_x ?l" "pos_x ?l < width (blank 4 3)" "0 \<le> pos_y ?l" "pos_y ?l < height (blank 4 3)"
    by (simp_all add: new_ImageLayer_def blank_def)
  from composite_clips_right_and_bottom [OF cv img pos]
  obtain cv' where run: "composite (blank 4 3) ?l ?img = ((blank 4 3)\<lparr>canvas := cv'\<rparr>, None)"
    and px: "\<forall>i < nat (height (blank 4 3)). \<forall>j < nat (width (blank 4 3)). cv' ! i ! j =
            (if pos_y ?l \<le> int i \<and> int i < pos_y ?l + int 3 \<and> pos_x ?l \<le> int j \<and> int j < pos_x ?l + int 3
             then ?img ! (i - nat (pos_y ?l)) ! (j - nat (pos_x ?l)) else canvas (blank 4 3) ! i ! j)"
    by blast
  have "cv' ! 1 ! 2 = 1 \<and> cv' ! 1 ! 3 = 2 \<and> cv' ! 2 ! 3 = 5 \<and> cv' ! 0 ! 2 = 255 \<and> cv' ! 2 ! 1 = 255"
    using px [rule_format, of 1 2] px [rule_format, of 1 3] px [rule_format, of 2 3]
      px [rule_format, of 0 2] px [rule_format, of 2 1]
    by (simp add: blank_def new_ImageLayer_def)
  with run show ?thesis by blast
qed

lemma setitem_block_columns_mismatch:
  assumes "slice_indices c0 c1 (ncols cv) = (ca, cb)" "ncols src \<noteq> cb - ca" "ncols src \<noteq> 1"
  shows "setitem_block cv (r0, r1) (c0, c1) src = Inl ValueError"
  using assms by (cases "slice_indices r0 r1 (length cv)") (simp add: setitem_block_def)

lemma setitem_block_rows_mismatch:
  assumes "slice_indices r0 r1 (length cv) = (ra, rb)" "length src \<noteq> rb - ra" "length src \<noteq> 1"
  shows "setitem_block cv (r0, r1) (c0, c1) src = Inl ValueError"
  using assms by (cases "slice_indices c0 c1 (ncols cv)") (simp add: setitem_block_def)

text \<open>
  Where a coordinate of the position is negative, compositing an image that fills the
  layer's footprint always ends with \<^verbatim>\<open>ValueError\<close>: the slice that starts at a
  negative index selects fewer rows or columns than the image has.
\<close>

theorem composite_negative_position_raises:
  assumes cv: "rectangular (canvas self) (nat (height self)) (nat (width self))"
    and size: "0 < width self" "0 < height self"
    and img: "rectangular img (nat (height self - pos_y l)) (nat (width self - pos_x l))"
    and pos: "pos_x l < width self" "pos_y l < height self"
    and neg: "pos_x l < 0 \<or> pos_y l < 0"
  shows "composite self l img = (self, Some ValueError)"
proof -
  let ?y = "pos_y l" and ?x = "pos_x l" and ?H = "height self" and ?W = "width self"
  have hpos: "0 < nat (?H - ?y)" using pos by simp
  have len: "length img = nat (?H - ?y)" using img by (simp add: rectangular_def)
  have nc: "ncols img = nat (?W - ?x)" using img hpos by (rule ncols_rectangular)
  have clen: "length (canvas self) = nat ?H" using cv by (simp add: rectangular_def)
  have cnc: "ncols (canvas self) = nat ?W" using cv size by (intro ncols_rectangular) auto
  have ye: "min (?y + int (length img)) ?H = ?H" and xe: "min (?x + int (ncols img)) ?W = ?W"
    using pos by (simp_all add: len nc)
  have "getitem_block img (int (nat (?H - ?y))) (int (nat (?W - ?x))) = img"
    using img hpos by (rule getitem_block_all)
  then have src: "getitem_block img (?H - ?y) (?W - ?x) = img"
    using pos by simp
  have "setitem_block (canvas self) (?y, ?H) (?x, ?W) img = Inl ValueError"
    using neg
  proof
    assume x: "?x < 0"
    have sl: "slice_indices ?x ?W (ncols (canvas self)) = (nat (max (?x + ?W) 0), nat ?W)"
      using x size by (simp add: slice_indices_def Let_def max_def cnc)
    have "ncols img \<noteq> nat ?W - nat (max (?x + ?W) 0)" "ncols img \<noteq> 1"
      using x size unfolding nc by linarith+
    with sl show ?thesis by (rule setitem_block_columns_mismatch)
  next
    assume y: "?y < 0"
    have sl: "slice_indices ?y ?H (length (canvas self)) = (nat (max (?y + ?H) 0), nat ?H)"
      using y size by (simp add: slice_indices_def Let_def max_def clen)
    have "length img \<noteq> nat ?H - nat (max (?y + ?H) 0)" "length img \<noteq> 1"
      using y size unfolding len by linarith+
    with sl show ?thesis by (rule setitem_block_rows_mismatch)
  qed
  then show ?thesis
    using pos by (simp add: composite_def Let_def ye xe src)
qed

text \<open>The theorem on a 3 by 5 image at column -1 of a 4 by 3 canvas.\<close>

theorem composite_negative_position_raises_witness:
  "composite (blank 4 3)
     ((new_ImageLayer ''photo'')\<lparr>pos_x := - 1\<rparr>)
     [[1, 2, 3, 4, 5], [6, 7, 8, 9, 10], [11, 12, 13, 14, 15]] = (blank 4 3, Some ValueError)"
  using composite_negative_position_raises [where self = "blank 4 3"
      and l = "(new_ImageLayer ''photo'')\<lparr>pos_x := - 1\<rparr>"
      and img = "[[1, 2, 3, 4, 5], [6, 7, 8, 9, 10], [11, 12, 13, 14, 15]]"]
    rectangular_blank [of 4 3]
  by (simp add: blank_def new_ImageLayer_def rectangular_def)

text \<open>
  With a \<^verbatim>\<open>resize_image\<close> that fails on a target size that is not positive, a
  visible image layer placed beyond the right or the bottom edge makes rendering it
  raise: the resize comes before the test that would skip the layer.
\<close>

theorem off_canvas_image_layer_raises:
  assumes fails: "\<And>g tw th m ax ay. tw \<le> 0 \<or> th \<le> 0 \<Longrightarrow> \<exists>e. resize_image hp g tw th m ax ay = Inl e"
    and vis: "visible l" and data: "image_data l = Some img"
    and tr: "apply_transformations hp l img = Inr img'"
    and off: "width self < pos_x l \<or> height self < pos_y l"
  shows "\<exists>e. render_image_layer hp self l = (self, Some e)"
proof -
  let ?tw = "width self - pos_x l" and ?th = "height self - pos_y l"
  have neg: "?tw < 0 \<or> ?th < 0" using off by auto
  have "shape img' \<noteq> (?th, ?tw)"
    using neg by (auto simp: shape_def)
  then have "resize_to_target hp self l img' = resize_image hp img' ?tw ?th (resize_mode l) (crop_x l) (crop_y l)"
    by (simp add: resize_to_target_def)
  moreover obtain e where "resize_image hp img' ?tw ?th (resize_mode l) (crop_x l) (crop_y l) = Inl e"
    using fails [of ?tw ?th] neg by force
  ultimately have "process_image hp self l img = Inl e"
    using tr by (simp add: process_image_def)
  then show ?thesis
    using vis data by (simp add: render_image_layer_def load_image_def)
qed

lemma spec_resize_image_fails:
  "tw \<le> 0 \<or> th \<le> 0 \<Longrightarrow> \<exists>e. resize_image spec_helpers g tw th m ax ay = Inl e"
  by (auto simp: spec_helpers_def spec_resize_image_def)

text \<open>The theorem with the helpers of the specification, on a layer at column 7 of a 4 by 3 canvas.\<close>

theorem off_canvas_image_layer_raises_witness:
  "\<exists>e. render_image_layer spec_helpers (blank 4 3)
     ((new_ImageLayer ''photo'')\<lparr>image_data := Some [[10, 20], [30, 200]], pos_x := 7\<rparr>) = (blank 4 3, Some e)"
  using off_canvas_image_layer_raises [where hp = spec_helpers and self = "blank 4 3"
      and l = "(new_ImageLayer ''photo'')\<lparr>image_data := Some [[10, 20], [30, 200]], pos_x := 7\<rparr>"
      and img = "[[10, 20], [30, 200]]" and img' = "[[10, 20], [30, 200]]", OF spec_resize_image_fails]
  by (simp add: new_ImageLayer_def blank_def apply_transformations_def)

end
